theory Spec2Isabelle
  imports Complex_Main "HOL-Library.AList"
begin

section \<open>Values shared by the two engine generations\<close>

text \<open>
  The repository holds two successive designs of one engine: the older one in
  \<^verbatim>\<open>DeepTrack/Features.py\<close> (dunder methods, a cache field, a history list threaded through
  the update) and the newer one in \<^verbatim>\<open>deeptrack/features.py\<close> (a flag instead of the history,
  no cache). Feature objects have identity and are mutated in place, so both are embedded
  over an explicit store: an address stands for an object, the heap maps every address to
  the object's fields, and \<open>next_addr\<close> is the allocation pointer (addresses below it are
  the objects that exist).
\<close>

type_synonym addr = nat

type_synonym shape = "nat list"

text \<open>Exceptions of the Python run time that the engine code can raise to its caller.\<close>

datatype error = AttributeError | KeyError | TypeError | RecursionError | Exception

text \<open>Plain Python values: None, an integer, a float, a string.\<close>

datatype pyval = VNone | VInt int | VFloat real | VStr string

text \<open>A dictionary with string keys, in insertion order.\<close>

type_synonym 'v dict = "(string \<times> 'v) list"

text \<open>
  Modelled from the spec: the numeric substrate (\<^verbatim>\<open>numpy\<close>) is a collaborator outside the
  repository; the spec gives its boundary as \<^verbatim>\<open>zeros(shape) -> array\<close>. An array is its
  shape and its elements in row-major order.
\<close>

datatype ndarray = NDArray (shape_of: shape) (elems: "real list")

definition zeros :: "shape \<Rightarrow> ndarray" where
  "zeros sh = NDArray sh (replicate (prod_list sh) 0)"

text \<open>
  Modelled from the spec: the Image class (\<^verbatim>\<open>DeepTrack/Image.py\<close>, \<^verbatim>\<open>deeptrack/image.py\<close>)
  is not under src/. The spec's Canvas is a payload array with an ordered list of provenance
  records; constructing it from a raw array gives empty provenance, constructing it from a
  canvas keeps the canvas, and \<^verbatim>\<open>append\<close> adds one record at the end.
\<close>

record 'v image =
  payload :: ndarray
  provenance :: "'v dict list"

definition Image :: "ndarray \<Rightarrow> 'v image" where
  "Image arr = \<lparr>payload = arr, provenance = []\<rparr>"

definition append :: "'v image \<Rightarrow> 'v dict \<Rightarrow> 'v image" where
  "append img entry = img\<lparr>provenance := provenance img @ [entry]\<rparr>"

text \<open>
  Python's call \<^verbatim>\<open>f(**d1, **d2)\<close> raises TypeError when a keyword occurs in both
  dictionaries; otherwise the callee sees the union.
\<close>

definition merge_kwargs :: "'v dict \<Rightarrow> 'v dict \<Rightarrow> error + 'v dict" where
  "merge_kwargs d1 d2 =
     (if set (map fst d1) \<inter> set (map fst d2) = {} then Inr (d1 @ d2) else Inl TypeError)"

text \<open>
  The uniform random source \<^verbatim>\<open>np.random.rand\<close>: a fixed sequence of draws in \<open>[0,1)\<close>
  and the position of the next one.
\<close>

record rng =
  draws :: "nat \<Rightarrow> real"
  draw_pos :: nat

definition rand :: "rng \<Rightarrow> real \<times> rng" where
  "rand g = (draws g (draw_pos g), g\<lparr>draw_pos := Suc (draw_pos g)\<rparr>)"


section \<open>The older engine: DeepTrack/Features.py\<close>

subsection \<open>Data model\<close>

text \<open>
  Modelled from the spec: the Distribution class (\<^verbatim>\<open>DeepTrack/Distributions.py\<close>) is not
  under src/. The spec's StochasticParameter holds a sampling rule (a constant, or a sampler
  that draws fresh randomness) and a current value that is stable between two updates;
  its update re-evaluates the rule and overwrites the current value.
\<close>

datatype sampling_rule = Constant pyval | Sampler "real \<Rightarrow> pyval"

record distribution =
  rule :: sampling_rule
  current_value :: pyval

definition Distribution_update :: "distribution \<Rightarrow> rng \<Rightarrow> distribution \<times> rng" where
  "Distribution_update d g =
     (case rule d of
        Constant v \<Rightarrow> (d\<lparr>current_value := v\<rparr>, g)
      | Sampler f \<Rightarrow> (let (r, g') = rand g in (d\<lparr>current_value := f r\<rparr>, g')))"

text \<open>
  An entry of \<^verbatim>\<open>__properties__\<close>. The base constructor wraps every keyword argument as a
  Distribution; Group stores the wrapped feature itself under \<^verbatim>\<open>"group"\<close>, and Load stores
  the raw path under \<^verbatim>\<open>"path"\<close>.
\<close>

datatype entry = EDist distribution | EFeature addr | ERaw pyval

text \<open>
  The \<^verbatim>\<open>parent\<close> slot when the attribute exists: None, a raw array, an Image or a Feature
  (the four cases \<^verbatim>\<open>__resolve__\<close> tells apart before its final \<^verbatim>\<open>else\<close>).
\<close>

datatype upstream = UNone | UArray ndarray | UImage "pyval image" | UFeature addr

text \<open>
  The class of a feature object. A leaf is a user subclass of the abstract base: its
  \<^verbatim>\<open>__name__\<close>, its \<^verbatim>\<open>__input_shape__\<close> (the base returns the shape as it is) and its
  transformation \<^verbatim>\<open>get(shape, image, **kwargs)\<close>, pure and total.
\<close>

datatype kind =
    Leaf string "shape \<Rightarrow> shape" "shape \<Rightarrow> pyval image \<Rightarrow> pyval dict \<Rightarrow> pyval image"
  | Group
  | Load

record feature =
  kind :: kind
  properties :: "(string \<times> entry) list"
  parent :: "upstream option"
  cache :: "pyval image option"
  probability :: "real option"
  attr_current_value :: "pyval option"
  res :: "ndarray option"
  iter :: "nat \<Rightarrow> ndarray"
  iter_pos :: nat

text \<open>
  \<open>parent\<close>, \<open>probability\<close> and \<open>res\<close> are \<open>None\<close> while the attribute does not exist;
  \<open>cache\<close> is \<open>None\<close> while the attribute does not exist or holds Python's None.
  \<open>attr_current_value\<close> is the attribute \<^verbatim>\<open>current_value\<close> that \<^verbatim>\<open>set_property\<close> creates on a
  feature object stored as an entry. \<open>iter\<close> and \<open>iter_pos\<close> are Load's generator: the opaque
  sequence of arrays of the external source and how many were consumed.
\<close>

record state =
  heap :: "addr \<Rightarrow> feature"
  next_addr :: addr
  random :: rng
  resampled :: "addr list"

text \<open>
  \<open>resampled\<close> is an instrument, not a field of the program: the addresses of the features
  whose parameters were resampled, in order.
\<close>

definition upd_feature :: "addr \<Rightarrow> (feature \<Rightarrow> feature) \<Rightarrow> state \<Rightarrow> state" where
  "upd_feature a f st = st\<lparr>heap := (heap st)(a := f (heap st a))\<rparr>"

subsection \<open>Reading and writing parameters\<close>

text \<open>The expression \<^verbatim>\<open>x.current_value\<close> for an entry \<open>x\<close> of \<^verbatim>\<open>__properties__\<close>.\<close>

definition entry_current_value :: "state \<Rightarrow> entry \<Rightarrow> error + pyval" where
  "entry_current_value st e =
     (case e of
        EDist d \<Rightarrow> Inr (current_value d)
      | EFeature b \<Rightarrow>
          (case attr_current_value (heap st b) of None \<Rightarrow> Inl AttributeError | Some v \<Rightarrow> Inr v)
      | ERaw v \<Rightarrow> Inl AttributeError)"

fun get_properties_loop :: "state \<Rightarrow> (string \<times> entry) list \<Rightarrow> pyval dict \<Rightarrow> error + pyval dict" where
  "get_properties_loop st [] props = Inr props"
| "get_properties_loop st ((key, e) # rest) props =
     (case entry_current_value st e of
        Inl err \<Rightarrow> Inl err
      | Inr v \<Rightarrow> get_properties_loop st rest (AList.update key v props))"

definition get_properties :: "state \<Rightarrow> addr \<Rightarrow> error + pyval dict" where
  "get_properties st a = get_properties_loop st (properties (heap st a)) []"

definition get_property :: "state \<Rightarrow> addr \<Rightarrow> string \<Rightarrow> error + pyval" where
  "get_property st a key =
     (case map_of (properties (heap st a)) key of
        None \<Rightarrow> Inl KeyError
      | Some e \<Rightarrow> entry_current_value st e)"

text \<open>
  \<^verbatim>\<open>self.__properties__[key].current_value = key\<close>: the value argument is not used. A
  Distribution and a feature object accept the attribute; a raw string does not.
\<close>

definition set_property :: "state \<Rightarrow> addr \<Rightarrow> string \<Rightarrow> pyval \<Rightarrow> error + state" where
  "set_property st a key val =
     (case map_of (properties (heap st a)) key of
        None \<Rightarrow> Inl KeyError
      | Some (EDist d) \<Rightarrow>
          Inr (upd_feature a (\<lambda>f. f\<lparr>properties :=
                 AList.update key (EDist (d\<lparr>current_value := VStr key\<rparr>)) (properties f)\<rparr>) st)
      | Some (EFeature b) \<Rightarrow>
          Inr (upd_feature b (\<lambda>f. f\<lparr>attr_current_value := Some (VStr key)\<rparr>) st)
      | Some (ERaw v) \<Rightarrow> Inl AttributeError)"

subsection \<open>Resolving\<close>

text \<open>
  \<^verbatim>\<open>__input_shape__\<close>: the base class (and Load, which inherits it) returns the shape; a leaf
  may override it; Group asks the object it reads with \<^verbatim>\<open>get_property("group")\<close>, which is a
  plain value whenever the read succeeds, and a plain value has no \<^verbatim>\<open>__input_shape__\<close>.
\<close>

definition input_shape :: "state \<Rightarrow> addr \<Rightarrow> shape \<Rightarrow> error + shape" where
  "input_shape st a sh =
     (case kind (heap st a) of
        Leaf nm ish g \<Rightarrow> Inr (ish sh)
      | Group \<Rightarrow>
          (case get_property st a ''group'' of Inl err \<Rightarrow> Inl err | Inr v \<Rightarrow> Inl AttributeError)
      | Load \<Rightarrow> Inr sh)"

definition feature_name :: "kind \<Rightarrow> string" where
  "feature_name k = (case k of Leaf nm ish g \<Rightarrow> nm | Group \<Rightarrow> ''Group'' | Load \<Rightarrow> ''Load'')"

text \<open>
  The call \<^verbatim>\<open>self.get(shape, image, **properties, **kwargs)\<close> together with the
  \<^verbatim>\<open>image.append\<close> that follows it needs an Image back. A leaf returns one. Group's
  \<^verbatim>\<open>get\<close> calls \<^verbatim>\<open>group.__resolve__\<close> on the value bound to \<^verbatim>\<open>group\<close> (None when the
  keyword is missing), a plain value without that method. Load's \<^verbatim>\<open>get\<close> returns
  \<^verbatim>\<open>self.res\<close>, missing before the first update and a raw array afterwards, which has no
  \<^verbatim>\<open>append\<close>.
\<close>

definition call_get :: "kind \<Rightarrow> shape \<Rightarrow> pyval image \<Rightarrow> pyval dict \<Rightarrow> pyval dict \<Rightarrow> error + pyval image" where
  "call_get k sh img props kwargs =
     (case merge_kwargs props kwargs of
        Inl err \<Rightarrow> Inl err
      | Inr args \<Rightarrow>
          (case k of
             Leaf nm ish g \<Rightarrow> Inr (g sh img args)
           | Group \<Rightarrow> Inl AttributeError
           | Load \<Rightarrow> Inl AttributeError))"

definition gate_probability :: "feature \<Rightarrow> real" where
  "gate_probability f = (case probability f of None \<Rightarrow> 1 | Some p \<Rightarrow> p)"

definition draw :: "state \<Rightarrow> real \<times> state" where
  "draw st = (let (r, g) = rand (random st) in (r, st\<lparr>random := g\<rparr>))"

definition store_cache :: "addr \<Rightarrow> pyval image \<Rightarrow> state \<Rightarrow> state" where
  "store_cache a img st = upd_feature a (\<lambda>f. f\<lparr>cache := Some img\<rparr>) st"

text \<open>
  Lines 221 to 232 of \<^verbatim>\<open>__resolve__\<close>: the gate, the transformation, the provenance record
  and the cache, once the input image is there.
\<close>

definition resolve_gate :: "state \<Rightarrow> addr \<Rightarrow> shape \<Rightarrow> pyval dict \<Rightarrow> pyval image \<Rightarrow> (error + pyval image) \<times> state" where
  "resolve_gate st a sh kwargs img =
     (let p = gate_probability (heap st a); (r, st1) = draw st in
      if r \<le> p then
        (case get_properties st1 a of
           Inl err \<Rightarrow> (Inl err, st1)
         | Inr props \<Rightarrow>
             (case call_get (kind (heap st1 a)) sh img props kwargs of
                Inl err \<Rightarrow> (Inl err, st1)
              | Inr out \<Rightarrow>
                  (let out' = append out
                        (AList.update ''name'' (VStr (feature_name (kind (heap st1 a)))) props)
                   in (Inr out', store_cache a out' st1))))
      else (Inr img, store_cache a img st1))"

text \<open>
  \<^verbatim>\<open>__resolve__\<close>. The first argument bounds the depth of nested calls: Python raises
  RecursionError when the interpreter's recursion limit is reached.
\<close>

fun resolve_old :: "nat \<Rightarrow> state \<Rightarrow> addr \<Rightarrow> shape \<Rightarrow> pyval dict \<Rightarrow> (error + pyval image) \<times> state" where
  "resolve_old 0 st a sh kwargs = (Inl RecursionError, st)"
| "resolve_old (Suc depth) st a sh kwargs =
     (case cache (heap st a) of
        Some c \<Rightarrow> (Inr c, st)
      | None \<Rightarrow>
          (case parent (heap st a) of
             None \<Rightarrow>
               (case input_shape st a sh of
                  Inl err \<Rightarrow> (Inl err, st)
                | Inr s \<Rightarrow> resolve_gate st a sh kwargs (Image (zeros s)))
           | Some UNone \<Rightarrow>
               (case input_shape st a sh of
                  Inl err \<Rightarrow> (Inl err, st)
                | Inr s \<Rightarrow> resolve_gate st a sh kwargs (Image (zeros s)))
           | Some (UArray arr) \<Rightarrow> resolve_gate st a sh kwargs (Image arr)
           | Some (UImage img) \<Rightarrow> resolve_gate st a sh kwargs img
           | Some (UFeature b) \<Rightarrow>
               (case resolve_old depth st b sh kwargs of
                  (Inl err, st') \<Rightarrow> (Inl err, st')
                | (Inr img, st') \<Rightarrow> resolve_gate st' a sh kwargs img)))"


subsection \<open>Updating\<close>

definition log_resample :: "addr \<Rightarrow> state \<Rightarrow> state" where
  "log_resample a st = st\<lparr>resampled := resampled st @ [a]\<rparr>"

text \<open>Load's \<^verbatim>\<open>self.res = next(self.iter)\<close>: the next array of the external source.\<close>

definition next_res :: "addr \<Rightarrow> state \<Rightarrow> state" where
  "next_res a st =
     upd_feature a (\<lambda>f. f\<lparr>res := Some (iter f (iter_pos f)), iter_pos := Suc (iter_pos f)\<rparr>) st"

definition set_entry :: "addr \<Rightarrow> string \<Rightarrow> entry \<Rightarrow> state \<Rightarrow> state" where
  "set_entry a key e st =
     upd_feature a (\<lambda>f. f\<lparr>properties := AList.update key e (properties f)\<rparr>) st"

text \<open>
  \<^verbatim>\<open>__update__(history)\<close> and its loop over \<^verbatim>\<open>self.__properties__.values()\<close>. Membership in
  the history is object identity. A Distribution is resampled in place, a feature stored as
  an entry gets its own \<^verbatim>\<open>__update__\<close>, a raw value has no such method. Load overrides the
  method: it appends itself, draws the next array and then calls the base method, which
  finds the object in the history and does nothing.
\<close>

fun update_old :: "nat \<Rightarrow> state \<Rightarrow> addr list \<Rightarrow> addr \<Rightarrow> (error + unit) \<times> state \<times> addr list"
and update_values :: "nat \<Rightarrow> state \<Rightarrow> addr list \<Rightarrow> addr \<Rightarrow> (string \<times> entry) list \<Rightarrow> (error + unit) \<times> state \<times> addr list"
where
  "update_old 0 st history a = (Inl RecursionError, st, history)"
| "update_old (Suc depth) st history a =
     (if a \<in> set history then (Inr (), st, history)
      else
        (case kind (heap st a) of
           Load \<Rightarrow> (Inr (), next_res a (log_resample a st), history @ [a])
         | Group \<Rightarrow>
             update_values depth (log_resample a st) (history @ [a]) a (properties (heap st a))
         | Leaf nm ish g \<Rightarrow>
             update_values depth (log_resample a st) (history @ [a]) a (properties (heap st a))))"
| "update_values depth st history a [] = (Inr (), st, history)"
| "update_values depth st history a ((key, e) # rest) =
     (case e of
        EDist d \<Rightarrow>
          (let (d', g) = Distribution_update d (random st)
           in update_values depth (set_entry a key (EDist d') (st\<lparr>random := g\<rparr>)) history a rest)
      | EFeature b \<Rightarrow>
          (case update_old depth st history b of
             (Inl err, st', history') \<Rightarrow> (Inl err, st', history')
           | (Inr u, st', history') \<Rightarrow> update_values depth st' history' a rest)
      | ERaw v \<Rightarrow> (Inl AttributeError, st, history))"

text \<open>
  \<^verbatim>\<open>__rupdate__(history)\<close>: update this feature, then follow the \<^verbatim>\<open>parent\<close> attribute when
  it exists. None, an array and an Image have no \<^verbatim>\<open>__rupdate__\<close>.
\<close>

fun rupdate :: "nat \<Rightarrow> state \<Rightarrow> addr list \<Rightarrow> addr \<Rightarrow> (error + unit) \<times> state \<times> addr list" where
  "rupdate 0 st history a = (Inl RecursionError, st, history)"
| "rupdate (Suc depth) st history a =
     (case update_old depth st history a of
        (Inl err, st', history') \<Rightarrow> (Inl err, st', history')
      | (Inr u, st', history') \<Rightarrow>
          (case parent (heap st' a) of
             None \<Rightarrow> (Inr (), st', history')
           | Some (UFeature b) \<Rightarrow> rupdate depth st' history' b
           | Some UNone \<Rightarrow> (Inl AttributeError, st', history')
           | Some (UArray arr) \<Rightarrow> (Inl AttributeError, st', history')
           | Some (UImage img) \<Rightarrow> (Inl AttributeError, st', history')))"


subsection \<open>Constructors\<close>

text \<open>
  The base constructor \<^verbatim>\<open>Feature.__init__(**kwargs)\<close> of a leaf class, with every keyword
  argument already wrapped as a Distribution; \<^verbatim>\<open>Group.__init__(Features)\<close>, which stores
  the feature itself; \<^verbatim>\<open>Load.__init__(path)\<close>, which stores the raw path and starts the
  generator.
\<close>

definition Feature_init :: "kind \<Rightarrow> (string \<times> distribution) list \<Rightarrow> feature" where
  "Feature_init k kwargs =
     \<lparr>kind = k, properties = map (\<lambda>kv. (fst kv, EDist (snd kv))) kwargs, parent = None,
      cache = None, probability = None, attr_current_value = None, res = None,
      iter = (\<lambda>i. zeros []), iter_pos = 0\<rparr>"

definition Group_init :: "addr \<Rightarrow> feature" where
  "Group_init b =
     \<lparr>kind = Group, properties = [(''group'', EFeature b)], parent = None,
      cache = None, probability = None, attr_current_value = None, res = None,
      iter = (\<lambda>i. zeros []), iter_pos = 0\<rparr>"

definition Load_init :: "string \<Rightarrow> (nat \<Rightarrow> ndarray) \<Rightarrow> feature" where
  "Load_init path source =
     \<lparr>kind = Load, properties = [(''path'', ERaw (VStr path))], parent = None,
      cache = None, probability = None, attr_current_value = None, res = None,
      iter = source, iter_pos = 0\<rparr>"

subsection \<open>Deep copies and composition operators\<close>

definition alloc_old :: "feature \<Rightarrow> state \<Rightarrow> addr \<times> state" where
  "alloc_old f st =
     (next_addr st, st\<lparr>heap := (heap st)(next_addr st := f), next_addr := Suc (next_addr st)\<rparr>)"

text \<open>
  \<^verbatim>\<open>copy.deepcopy\<close> on a feature of the older engine: the new object is allocated and entered
  in the memo, then \<^verbatim>\<open>__properties__\<close> and \<^verbatim>\<open>parent\<close> are copied with every feature they
  refer to (a feature met again is taken from the memo); Distributions, arrays and images
  are values here and copy as themselves. A Load feature holds a generator, which
  \<^verbatim>\<open>deepcopy\<close> refuses with TypeError. The first argument bounds the nesting depth.
\<close>

type_synonym copier_old = "state \<Rightarrow> (addr \<Rightarrow> addr option) \<Rightarrow> addr \<Rightarrow> (error + addr) \<times> state \<times> (addr \<Rightarrow> addr option)"

fun deepcopy_entries :: "copier_old \<Rightarrow> state \<Rightarrow> (addr \<Rightarrow> addr option) \<Rightarrow> (string \<times> entry) list \<Rightarrow> (error + (string \<times> entry) list) \<times> state \<times> (addr \<Rightarrow> addr option)" where
  "deepcopy_entries C st m [] = (Inr [], st, m)"
| "deepcopy_entries C st m ((key, EFeature b) # rest) =
     (case C st m b of
        (Inl err, st1, m1) \<Rightarrow> (Inl err, st1, m1)
      | (Inr b', st1, m1) \<Rightarrow>
          (case deepcopy_entries C st1 m1 rest of
             (Inl err, st2, m2) \<Rightarrow> (Inl err, st2, m2)
           | (Inr rest', st2, m2) \<Rightarrow> (Inr ((key, EFeature b') # rest'), st2, m2)))"
| "deepcopy_entries C st m ((key, e) # rest) =
     (case deepcopy_entries C st m rest of
        (Inl err, st2, m2) \<Rightarrow> (Inl err, st2, m2)
      | (Inr rest', st2, m2) \<Rightarrow> (Inr ((key, e) # rest'), st2, m2))"

definition deepcopy_parent :: "copier_old \<Rightarrow> state \<Rightarrow> (addr \<Rightarrow> addr option) \<Rightarrow> upstream option \<Rightarrow> (error + upstream option) \<times> state \<times> (addr \<Rightarrow> addr option)" where
  "deepcopy_parent C st m up =
     (case up of
        Some (UFeature b) \<Rightarrow>
          (case C st m b of
             (Inl err, st1, m1) \<Rightarrow> (Inl err, st1, m1)
           | (Inr b', st1, m1) \<Rightarrow> (Inr (Some (UFeature b')), st1, m1))
      | Some UNone \<Rightarrow> (Inr (Some UNone), st, m)
      | Some (UArray arr) \<Rightarrow> (Inr (Some (UArray arr)), st, m)
      | Some (UImage img) \<Rightarrow> (Inr (Some (UImage img)), st, m)
      | None \<Rightarrow> (Inr None, st, m))"

fun deepcopy_old :: "nat \<Rightarrow> state \<Rightarrow> (addr \<Rightarrow> addr option) \<Rightarrow> addr \<Rightarrow> (error + addr) \<times> state \<times> (addr \<Rightarrow> addr option)" where
  "deepcopy_old 0 st m a = (Inl RecursionError, st, m)"
| "deepcopy_old (Suc depth) st m a =
     (case m a of
        Some c \<Rightarrow> (Inr c, st, m)
      | None \<Rightarrow>
          (if kind (heap st a) = Load then (Inl TypeError, st, m)
           else
             (case deepcopy_entries (deepcopy_old depth) (snd (alloc_old (heap st a) st))
                     (m(a \<mapsto> next_addr st)) (properties (heap st a)) of
                (Inl err, st1, m1) \<Rightarrow> (Inl err, st1, m1)
              | (Inr es, st1, m1) \<Rightarrow>
                  (case deepcopy_parent (deepcopy_old depth) st1 m1 (parent (heap st a)) of
                     (Inl err, st2, m2) \<Rightarrow> (Inl err, st2, m2)
                   | (Inr up, st2, m2) \<Rightarrow>
                       (Inr (next_addr st),
                        upd_feature (next_addr st)
                          (\<lambda>f. (heap st a)\<lparr>properties := es, parent := up\<rparr>) st2,
                        m2)))))"





definition mul_old :: "nat \<Rightarrow> state \<Rightarrow> addr \<Rightarrow> real \<Rightarrow> (error + addr) \<times> state" where
  "mul_old depth st self other =
     (case deepcopy_old depth st (\<lambda>x. None) self of
        (Inl err, st1, m) \<Rightarrow> (Inl err, st1)
      | (Inr c, st1, m) \<Rightarrow>
          (let (G, st2) = alloc_old (Group_init c) st1
           in (Inr G, upd_feature G (\<lambda>f. f\<lparr>probability := Some other\<rparr>) st2)))"

subsection \<open>Example stores\<close>

text \<open>A leaf transformation that adds one to every element, and a constant parameter.\<close>

definition add_one :: "shape \<Rightarrow> pyval image \<Rightarrow> pyval dict \<Rightarrow> pyval image" where
  "add_one sh img args =
     img\<lparr>payload := NDArray (shape_of (payload img)) (map (\<lambda>x. x + 1) (elems (payload img)))\<rparr>"

definition sigma :: distribution where
  "sigma = \<lparr>rule = Constant (VFloat 2), current_value = VFloat 2\<rparr>"

definition AddOne :: feature where
  "AddOne = Feature_init (Leaf ''AddOne'' (\<lambda>sh. sh) add_one) [(''sigma'', sigma)]"

definition half :: rng where
  "half = \<lparr>draws = (\<lambda>i. 1 / 2), draw_pos = 0\<rparr>"

text \<open>One leaf without upstream; the same leaf with itself as upstream; one Load feature.\<close>

definition single_state :: state where
  "single_state = \<lparr>heap = (\<lambda>a. AddOne), next_addr = 1, random = half, resampled = []\<rparr>"

definition cyclic_state :: state where
  "cyclic_state =
     \<lparr>heap = (\<lambda>a. AddOne\<lparr>properties := [], parent := Some (UFeature 0)\<rparr>), next_addr = 1,
      random = half, resampled = []\<rparr>"

definition load_state :: state where
  "load_state =
     \<lparr>heap = (\<lambda>a. Load_init ''data'' (\<lambda>i. zeros [2, 2])), next_addr = 1, random = half,
      resampled = []\<rparr>"


text \<open>
  The leaf gated with probability 0, once with every draw equal to 0 and once with every
  draw equal to one half.
\<close>

definition zero_gate_state :: state where
  "zero_gate_state =
     \<lparr>heap = (\<lambda>a. AddOne\<lparr>probability := Some 0\<rparr>), next_addr = 1,
      random = \<lparr>draws = (\<lambda>i. 0), draw_pos = 0\<rparr>, resampled = []\<rparr>"

definition skip_state :: state where
  "skip_state =
     \<lparr>heap = (\<lambda>a. AddOne\<lparr>probability := Some 0\<rparr>), next_addr = 1,
      random = half, resampled = []\<rparr>"


subsection \<open>Relations between stores\<close>


definition oframe :: "state \<Rightarrow> state \<Rightarrow> bool" where
  "oframe st st' =
     (next_addr st \<le> next_addr st' \<and> (\<forall>y. y < next_addr st \<longrightarrow> heap st' y = heap st y))"












section \<open>The newer engine: deeptrack/features.py\<close>

subsection \<open>Data model\<close>

text \<open>
  A parameter of the newer engine can hold a feature (Branch's \<^verbatim>\<open>feature_1\<close>) or a list of
  features (Duplicate's \<^verbatim>\<open>features\<close>) besides a plain value.
\<close>

datatype nval = NVal pyval | NFeature addr | NFeatures "addr list"

text \<open>
  Modelled from the spec: the Property and PropertyDict classes (\<^verbatim>\<open>deeptrack/properties.py\<close>)
  are not under src/. The spec's StochasticParameter is a lazily sampled cell: it is created
  from a keyword argument at construction, its current value is read without side effects
  and is overwritten only by \<^verbatim>\<open>update\<close>, which re-evaluates the sampling rule. The rule is a
  constant, a zero-argument sampler that draws fresh randomness (\<^verbatim>\<open>np.random.rand\<close> is
  \<open>RSampler VFloat\<close>), a feature (its update is the recursion into that feature, the spec's
  step 3 of the update phase), or Duplicate's sampler, a closure over the Duplicate node
  and the feature to copy, which reads the sibling \<^verbatim>\<open>num_duplicates\<close>. A cell that was never
  sampled has no current value, and reading it is AttributeError.
\<close>

datatype nrule =
    RConst pyval
  | RSampler "real \<Rightarrow> pyval"
  | RFeature addr
  | RDuplicates addr addr

record property =
  sampling_rule :: nrule
  prop_value :: "nval option"

definition Property :: "nrule \<Rightarrow> property" where
  "Property r = \<lparr>sampling_rule = r, prop_value = None\<rparr>"

text \<open>
  The class of a feature object: a leaf is a user subclass of the abstract base with its
  class name, its \<^verbatim>\<open>__property_verbosity__\<close> (1 in the base) and its transformation
  \<^verbatim>\<open>get(image, **kwargs)\<close>, pure and total; the four combinators are the classes of the file.
\<close>

datatype nkind =
    NLeaf string int "nval image \<Rightarrow> nval dict \<Rightarrow> nval image"
  | Branch
  | Probability
  | Duplicate
  | Wrap

record nfeature =
  nkind :: nkind
  nproperties :: "(string \<times> property) list"
  has_updated_since_last_resolve :: bool
  attr_feature :: "addr option"

text \<open>\<open>attr_feature\<close> is the attribute \<^verbatim>\<open>self.feature\<close> that Duplicate's constructor sets.\<close>

record nstate =
  nheap :: "addr \<Rightarrow> nfeature"
  nnext_addr :: addr
  nrandom :: rng
  nresampled :: "addr list"

definition upd_nfeature :: "addr \<Rightarrow> (nfeature \<Rightarrow> nfeature) \<Rightarrow> nstate \<Rightarrow> nstate" where
  "upd_nfeature a f st = st\<lparr>nheap := (nheap st)(a := f (nheap st a))\<rparr>"

definition alloc :: "nfeature \<Rightarrow> nstate \<Rightarrow> addr \<times> nstate" where
  "alloc f st =
     (nnext_addr st,
      st\<lparr>nheap := (nheap st)(nnext_addr st := f), nnext_addr := Suc (nnext_addr st)\<rparr>)"

definition class_name :: "nkind \<Rightarrow> string" where
  "class_name k =
     (case k of NLeaf nm v g \<Rightarrow> nm | Branch \<Rightarrow> ''Branch'' | Probability \<Rightarrow> ''Probability''
      | Duplicate \<Rightarrow> ''Duplicate'' | Wrap \<Rightarrow> ''Wrap'')"

definition property_verbosity_of :: "nkind \<Rightarrow> int" where
  "property_verbosity_of k =
     (case k of NLeaf nm v g \<Rightarrow> v | Branch \<Rightarrow> 2 | Probability \<Rightarrow> 2 | Duplicate \<Rightarrow> 2 | Wrap \<Rightarrow> 2)"

subsection \<open>Python expressions on parameter values\<close>

text \<open>\<^verbatim>\<open>x < y\<close>: numbers compare by value, strings by code points, anything else raises.\<close>

fun py_less :: "nval \<Rightarrow> nval \<Rightarrow> error + bool" where
  "py_less (NVal (VInt i)) (NVal (VInt j)) = Inr (i < j)"
| "py_less (NVal (VInt i)) (NVal (VFloat y)) = Inr (real_of_int i < y)"
| "py_less (NVal (VFloat x)) (NVal (VInt j)) = Inr (x < real_of_int j)"
| "py_less (NVal (VFloat x)) (NVal (VFloat y)) = Inr (x < y)"
| "py_less (NVal (VStr s)) (NVal (VStr t)) =
     Inr (lexordp (<) (map of_char s :: nat list) (map of_char t))"
| "py_less x y = Inl TypeError"

text \<open>\<^verbatim>\<open>i <= y\<close> for the integer class attribute \<^verbatim>\<open>__property_verbosity__\<close>.\<close>

fun py_int_le :: "int \<Rightarrow> nval \<Rightarrow> error + bool" where
  "py_int_le i (NVal (VInt j)) = Inr (i \<le> j)"
| "py_int_le i (NVal (VFloat y)) = Inr (real_of_int i \<le> y)"
| "py_int_le i y = Inl TypeError"

text \<open>
  \<^verbatim>\<open>f.resolve\<close> and \<^verbatim>\<open>f.properties\<close> for the value bound to a keyword whose default is None:
  only a feature has the attribute.
\<close>

fun as_feature :: "nval option \<Rightarrow> error + addr" where
  "as_feature (Some (NFeature b)) = Inr b"
| "as_feature v = Inl AttributeError"

text \<open>
  \<^verbatim>\<open>for feature in features: image = feature.resolve(...)\<close>: a list of features is walked;
  a string yields its characters, which have no \<^verbatim>\<open>resolve\<close>; None, a number and a feature
  are not iterable.
\<close>

fun as_features :: "nval option \<Rightarrow> error + addr list" where
  "as_features (Some (NFeatures bs)) = Inr bs"
| "as_features (Some (NVal (VStr s))) = (if s = [] then Inr [] else Inl AttributeError)"
| "as_features v = Inl TypeError"

text \<open>
  \<^verbatim>\<open>range(n)\<close> as the number of iterations: an integer gives that many (none when it is
  negative), anything else is TypeError.
\<close>

fun py_range :: "nval \<Rightarrow> error + nat" where
  "py_range (NVal (VInt k)) = Inr (nat k)"
| "py_range v = Inl TypeError"

text \<open>\<^verbatim>\<open>d.update(other)\<close> on dictionaries.\<close>

definition dict_update :: "'v dict \<Rightarrow> 'v dict \<Rightarrow> 'v dict" where
  "dict_update d other = foldl (\<lambda>acc kv. AList.update (fst kv) (snd kv) acc) d other"

text \<open>The keywords left for \<^verbatim>\<open>**kwargs\<close> after the named parameters took theirs.\<close>

definition without :: "string list \<Rightarrow> 'v dict \<Rightarrow> 'v dict" where
  "without names d = filter (\<lambda>kv. fst kv \<notin> set names) d"

subsection \<open>Resolving\<close>

text \<open>
  Modelled from the spec: \<^verbatim>\<open>PropertyDict.current_value_dict\<close> (not under src/) is the
  spec's snapshot, a plain mapping from each name to the parameter's current value, read
  without side effects.
\<close>

fun current_value_dict_loop :: "(string \<times> property) list \<Rightarrow> nval dict \<Rightarrow> error + nval dict" where
  "current_value_dict_loop [] acc = Inr acc"
| "current_value_dict_loop ((key, p) # rest) acc =
     (case prop_value p of
        None \<Rightarrow> Inl AttributeError
      | Some v \<Rightarrow> current_value_dict_loop rest (AList.update key v acc))"

definition current_value_dict :: "nstate \<Rightarrow> addr \<Rightarrow> error + nval dict" where
  "current_value_dict st a = current_value_dict_loop (nproperties (nheap st a)) []"

text \<open>
  The arguments of \<^verbatim>\<open>self.get(image, **feature_input)\<close>: the current values, updated with
  the global keyword arguments. A keyword \<^verbatim>\<open>image\<close> collides with the positional argument.
\<close>

definition feature_input :: "nstate \<Rightarrow> addr \<Rightarrow> nval dict \<Rightarrow> error + nval dict" where
  "feature_input st a global_kwargs =
     (case current_value_dict st a of
        Inl err \<Rightarrow> Inl err
      | Inr d \<Rightarrow>
          (let input = dict_update d global_kwargs
           in if ''image'' \<in> set (map fst input) then Inl TypeError else Inr input))"

text \<open>
  The test of \<^verbatim>\<open>Probability.get\<close>, \<^verbatim>\<open>random_number < probability\<close>, on the arguments of the
  call (both keywords default to None).
\<close>

definition gate_opens :: "nval dict \<Rightarrow> error + bool" where
  "gate_opens input =
     py_less (case map_of input ''random_number'' of None \<Rightarrow> NVal VNone | Some v \<Rightarrow> v)
             (case map_of input ''probability'' of None \<Rightarrow> NVal VNone | Some v \<Rightarrow> v)"

definition clear_flag :: "addr \<Rightarrow> nstate \<Rightarrow> nstate" where
  "clear_flag a st = upd_nfeature a (\<lambda>f. f\<lparr>has_updated_since_last_resolve := False\<rparr>) st"

text \<open>
  The end of \<^verbatim>\<open>resolve\<close>, from the read of \<^verbatim>\<open>property_verbosity\<close> on: the provenance record
  when the class is not more verbose than asked for, and the flag.
\<close>

definition record_output :: "nstate \<Rightarrow> addr \<Rightarrow> nval dict \<Rightarrow> nval dict \<Rightarrow> nval image \<Rightarrow> (error + nval image) \<times> nstate" where
  "record_output st a input global_kwargs out =
     (case py_int_le (property_verbosity_of (nkind (nheap st a)))
             (case map_of global_kwargs ''property_verbosity'' of
                None \<Rightarrow> NVal (VInt 1) | Some v \<Rightarrow> v) of
        Inl err \<Rightarrow> (Inl err, st)
      | Inr True \<Rightarrow>
          (Inr (append out
                  (AList.update ''name'' (NVal (VStr (class_name (nkind (nheap st a))))) input)),
           clear_flag a st)
      | Inr False \<Rightarrow> (Inr out, clear_flag a st))"

text \<open>
  The \<^verbatim>\<open>get\<close> methods of the four combinators. Each takes the arguments of the call
  \<^verbatim>\<open>self.get(image, **feature_input)\<close>; the named parameters take their keywords and the
  rest is \<^verbatim>\<open>**kwargs\<close>, handed on to the nested \<^verbatim>\<open>resolve\<close> calls. The first argument
  stands for those nested calls.
\<close>

type_synonym resolver = "nstate \<Rightarrow> addr \<Rightarrow> nval image \<Rightarrow> nval dict \<Rightarrow> (error + nval image) \<times> nstate"

definition Branch_get :: "resolver \<Rightarrow> nstate \<Rightarrow> nval image \<Rightarrow> nval dict \<Rightarrow> (error + nval image) \<times> nstate" where
  "Branch_get R st img input =
     (let kwargs = without [''feature_1'', ''feature_2''] input in
      case as_feature (map_of input ''feature_1'') of
        Inl err \<Rightarrow> (Inl err, st)
      | Inr f1 \<Rightarrow>
          (case R st f1 img kwargs of
             (Inl err, st1) \<Rightarrow> (Inl err, st1)
           | (Inr img1, st1) \<Rightarrow>
               (case as_feature (map_of input ''feature_2'') of
                  Inl err \<Rightarrow> (Inl err, st1)
                | Inr f2 \<Rightarrow> R st1 f2 img1 kwargs)))"

definition Probability_get :: "resolver \<Rightarrow> nstate \<Rightarrow> nval image \<Rightarrow> nval dict \<Rightarrow> (error + nval image) \<times> nstate" where
  "Probability_get R st img input =
     (let kwargs = without [''feature'', ''probability'', ''random_number''] input in
      case gate_opens input of
        Inl err \<Rightarrow> (Inl err, st)
      | Inr True \<Rightarrow>
          (case as_feature (map_of input ''feature'') of
             Inl err \<Rightarrow> (Inl err, st)
           | Inr f \<Rightarrow> R st f img kwargs)
      | Inr False \<Rightarrow> (Inr img, st))"

fun resolve_all :: "resolver \<Rightarrow> nstate \<Rightarrow> addr list \<Rightarrow> nval image \<Rightarrow> nval dict \<Rightarrow> (error + nval image) \<times> nstate" where
  "resolve_all R st [] img kwargs = (Inr img, st)"
| "resolve_all R st (f # fs) img kwargs =
     (case R st f img kwargs of
        (Inl err, st1) \<Rightarrow> (Inl err, st1)
      | (Inr img1, st1) \<Rightarrow> resolve_all R st1 fs img1 kwargs)"

definition Duplicate_get :: "resolver \<Rightarrow> nstate \<Rightarrow> nval image \<Rightarrow> nval dict \<Rightarrow> (error + nval image) \<times> nstate" where
  "Duplicate_get R st img input =
     (let kwargs = without [''features''] input in
      case as_features (map_of input ''features'') of
        Inl err \<Rightarrow> (Inl err, st)
      | Inr fs \<Rightarrow> resolve_all R st fs img kwargs)"

definition Wrap_get :: "resolver \<Rightarrow> nstate \<Rightarrow> nval image \<Rightarrow> nval dict \<Rightarrow> (error + nval image) \<times> nstate" where
  "Wrap_get R st img input =
     (let kwargs = without [''feature_1'', ''feature_2''] input in
      case as_feature (map_of input ''feature_1'') of
        Inl err \<Rightarrow> (Inl err, st)
      | Inr f1 \<Rightarrow>
          (case as_feature (map_of input ''feature_2'') of
             Inl err \<Rightarrow> (Inl err, st)
           | Inr f2 \<Rightarrow>
               (case current_value_dict st f2 of
                  Inl err \<Rightarrow> (Inl err, st)
                | Inr d2 \<Rightarrow>
                    (case merge_kwargs d2 kwargs of
                       Inl err \<Rightarrow> (Inl err, st)
                     | Inr kwargs1 \<Rightarrow>
                         (case R st f1 img kwargs1 of
                            (Inl err, st1) \<Rightarrow> (Inl err, st1)
                          | (Inr img1, st1) \<Rightarrow> R st1 f2 img1 kwargs)))))"

definition class_get :: "resolver \<Rightarrow> nkind \<Rightarrow> nstate \<Rightarrow> nval image \<Rightarrow> nval dict \<Rightarrow> (error + nval image) \<times> nstate" where
  "class_get R k st img input =
     (case k of
        NLeaf nm v g \<Rightarrow> (Inr (g img input), st)
      | Branch \<Rightarrow> Branch_get R st img input
      | Probability \<Rightarrow> Probability_get R st img input
      | Duplicate \<Rightarrow> Duplicate_get R st img input
      | Wrap \<Rightarrow> Wrap_get R st img input)"

text \<open>
  \<^verbatim>\<open>resolve\<close>. The first argument bounds the depth of nested calls: Python raises
  RecursionError when the interpreter's recursion limit is reached.
\<close>

fun resolve :: "nat \<Rightarrow> nstate \<Rightarrow> addr \<Rightarrow> nval image \<Rightarrow> nval dict \<Rightarrow> (error + nval image) \<times> nstate" where
  "resolve 0 st a img global_kwargs = (Inl RecursionError, st)"
| "resolve (Suc depth) st a img global_kwargs =
     (case feature_input st a global_kwargs of
        Inl err \<Rightarrow> (Inl err, st)
      | Inr input \<Rightarrow>
          (case class_get (resolve depth) (nkind (nheap st a)) st img input of
             (Inl err, st') \<Rightarrow> (Inl err, st')
           | (Inr out, st') \<Rightarrow> record_output st' a input global_kwargs out))"

subsection \<open>Deep copies\<close>

text \<open>
  \<^verbatim>\<open>copy.deepcopy\<close> on a feature: a new object is allocated and entered in the memo first,
  then the attributes are copied in the order they were set (\<^verbatim>\<open>self.feature\<close> of Duplicate
  before \<^verbatim>\<open>properties\<close>), and the copy receives them. An object met again is taken from the
  memo; plain values and functions (the samplers, and with them the objects Duplicate's
  closure refers to) are not copied. The first argument bounds the nesting depth.
\<close>

type_synonym memo = "addr \<Rightarrow> addr option"

type_synonym copier = "nstate \<Rightarrow> memo \<Rightarrow> addr \<Rightarrow> (error + addr) \<times> nstate \<times> memo"

definition deepcopy_attr :: "copier \<Rightarrow> nstate \<Rightarrow> memo \<Rightarrow> addr option \<Rightarrow> (error + addr option) \<times> nstate \<times> memo" where
  "deepcopy_attr C st m attr =
     (case attr of
        None \<Rightarrow> (Inr None, st, m)
      | Some b \<Rightarrow>
          (case C st m b of
             (Inl err, st1, m1) \<Rightarrow> (Inl err, st1, m1)
           | (Inr b', st1, m1) \<Rightarrow> (Inr (Some b'), st1, m1)))"

fun deepcopy_list :: "copier \<Rightarrow> nstate \<Rightarrow> memo \<Rightarrow> addr list \<Rightarrow> (error + addr list) \<times> nstate \<times> memo" where
  "deepcopy_list C st m [] = (Inr [], st, m)"
| "deepcopy_list C st m (b # bs) =
     (case C st m b of
        (Inl err, st1, m1) \<Rightarrow> (Inl err, st1, m1)
      | (Inr b', st1, m1) \<Rightarrow>
          (case deepcopy_list C st1 m1 bs of
             (Inl err, st2, m2) \<Rightarrow> (Inl err, st2, m2)
           | (Inr bs', st2, m2) \<Rightarrow> (Inr (b' # bs'), st2, m2)))"

definition deepcopy_rule :: "copier \<Rightarrow> nstate \<Rightarrow> memo \<Rightarrow> nrule \<Rightarrow> (error + nrule) \<times> nstate \<times> memo" where
  "deepcopy_rule C st m r =
     (case r of
        RFeature b \<Rightarrow>
          (case C st m b of
             (Inl err, st1, m1) \<Rightarrow> (Inl err, st1, m1)
           | (Inr b', st1, m1) \<Rightarrow> (Inr (RFeature b'), st1, m1))
      | RConst v \<Rightarrow> (Inr (RConst v), st, m)
      | RSampler f \<Rightarrow> (Inr (RSampler f), st, m)
      | RDuplicates s f \<Rightarrow> (Inr (RDuplicates s f), st, m))"

definition deepcopy_value :: "copier \<Rightarrow> nstate \<Rightarrow> memo \<Rightarrow> nval option \<Rightarrow> (error + nval option) \<times> nstate \<times> memo" where
  "deepcopy_value C st m v =
     (case v of
        None \<Rightarrow> (Inr None, st, m)
      | Some (NVal x) \<Rightarrow> (Inr (Some (NVal x)), st, m)
      | Some (NFeature b) \<Rightarrow>
          (case C st m b of
             (Inl err, st1, m1) \<Rightarrow> (Inl err, st1, m1)
           | (Inr b', st1, m1) \<Rightarrow> (Inr (Some (NFeature b')), st1, m1))
      | Some (NFeatures bs) \<Rightarrow>
          (case deepcopy_list C st m bs of
             (Inl err, st1, m1) \<Rightarrow> (Inl err, st1, m1)
           | (Inr bs', st1, m1) \<Rightarrow> (Inr (Some (NFeatures bs')), st1, m1)))"

fun deepcopy_properties :: "copier \<Rightarrow> nstate \<Rightarrow> memo \<Rightarrow> (string \<times> property) list \<Rightarrow> (error + (string \<times> property) list) \<times> nstate \<times> memo" where
  "deepcopy_properties C st m [] = (Inr [], st, m)"
| "deepcopy_properties C st m ((key, p) # rest) =
     (case deepcopy_rule C st m (sampling_rule p) of
        (Inl err, st1, m1) \<Rightarrow> (Inl err, st1, m1)
      | (Inr r, st1, m1) \<Rightarrow>
          (case deepcopy_value C st1 m1 (prop_value p) of
             (Inl err, st2, m2) \<Rightarrow> (Inl err, st2, m2)
           | (Inr v, st2, m2) \<Rightarrow>
               (case deepcopy_properties C st2 m2 rest of
                  (Inl err, st3, m3) \<Rightarrow> (Inl err, st3, m3)
                | (Inr rest', st3, m3) \<Rightarrow>
                    (Inr ((key, \<lparr>sampling_rule = r, prop_value = v\<rparr>) # rest'), st3, m3))))"

fun deepcopy :: "nat \<Rightarrow> nstate \<Rightarrow> memo \<Rightarrow> addr \<Rightarrow> (error + addr) \<times> nstate \<times> memo" where
  "deepcopy 0 st m a = (Inl RecursionError, st, m)"
| "deepcopy (Suc depth) st m a =
     (case m a of
        Some c \<Rightarrow> (Inr c, st, m)
      | None \<Rightarrow>
          (case deepcopy_attr (deepcopy depth) (snd (alloc (nheap st a) st))
                  (m(a \<mapsto> nnext_addr st)) (attr_feature (nheap st a)) of
             (Inl err, st1, m1) \<Rightarrow> (Inl err, st1, m1)
           | (Inr attr, st1, m1) \<Rightarrow>
               (case deepcopy_properties (deepcopy depth) st1 m1 (nproperties (nheap st a)) of
                  (Inl err, st2, m2) \<Rightarrow> (Inl err, st2, m2)
                | (Inr props, st2, m2) \<Rightarrow>
                    (Inr (nnext_addr st),
                     upd_nfeature (nnext_addr st)
                       (\<lambda>f. (nheap st a)\<lparr>nproperties := props, attr_feature := attr\<rparr>) st2,
                     m2))))"

subsection \<open>Updating\<close>

definition log_nresample :: "addr \<Rightarrow> nstate \<Rightarrow> nstate" where
  "log_nresample a st = st\<lparr>nresampled := nresampled st @ [a]\<rparr>"

definition set_flag :: "addr \<Rightarrow> nstate \<Rightarrow> nstate" where
  "set_flag a st = upd_nfeature a (\<lambda>f. f\<lparr>has_updated_since_last_resolve := True\<rparr>) st"

definition set_value :: "addr \<Rightarrow> string \<Rightarrow> nval \<Rightarrow> nstate \<Rightarrow> nstate" where
  "set_value a key v st =
     upd_nfeature a (\<lambda>f. f\<lparr>nproperties :=
        map (\<lambda>kp. if fst kp = key then (key, (snd kp)\<lparr>prop_value := Some v\<rparr>) else kp)
            (nproperties f)\<rparr>) st"

definition ndraw :: "nstate \<Rightarrow> real \<times> nstate" where
  "ndraw st = (let (r, g) = rand (nrandom st) in (r, st\<lparr>nrandom := g\<rparr>))"

text \<open>
  \<^verbatim>\<open>self.properties["num_duplicates"].current_value\<close> inside Duplicate's sampler, and
  \<^verbatim>\<open>range\<close> of it.
\<close>

definition num_duplicates :: "nstate \<Rightarrow> addr \<Rightarrow> error + nat" where
  "num_duplicates st s =
     (case map_of (nproperties (nheap st s)) ''num_duplicates'' of
        None \<Rightarrow> Inl KeyError
      | Some p \<Rightarrow>
          (case prop_value p of None \<Rightarrow> Inl AttributeError | Some v \<Rightarrow> py_range v))"

text \<open>
  Duplicate's sampler, the lambda of its constructor:
  \<^verbatim>\<open>[copy.deepcopy(feature).update() for _ in range(n)]\<close>. The first argument stands for the
  \<^verbatim>\<open>update\<close> of a copy, the second bounds the depth of the copying.
\<close>

type_synonym updater = "nstate \<Rightarrow> addr \<Rightarrow> (error + unit) \<times> nstate"

fun duplicates :: "updater \<Rightarrow> nat \<Rightarrow> nstate \<Rightarrow> addr \<Rightarrow> nat \<Rightarrow> (error + addr list) \<times> nstate" where
  "duplicates U depth st f 0 = (Inr [], st)"
| "duplicates U depth st f (Suc n) =
     (case deepcopy depth st (\<lambda>x. None) f of
        (Inl err, st1, m) \<Rightarrow> (Inl err, st1)
      | (Inr c, st1, m) \<Rightarrow>
          (case U st1 c of
             (Inl err, st2) \<Rightarrow> (Inl err, st2)
           | (Inr u, st2) \<Rightarrow>
               (case duplicates U depth st2 f n of
                  (Inl err, st3) \<Rightarrow> (Inl err, st3)
                | (Inr cs, st3) \<Rightarrow> (Inr (c # cs), st3))))"

text \<open>
  Modelled from the spec: \<^verbatim>\<open>Property.update\<close> and \<^verbatim>\<open>PropertyDict.update\<close> (not under src/).
  A parameter re-evaluates its sampling rule and overwrites its current value; the
  dictionary updates every parameter once, in declaration order.
\<close>

definition sample :: "updater \<Rightarrow> nat \<Rightarrow> nstate \<Rightarrow> nrule \<Rightarrow> (error + nval) \<times> nstate" where
  "sample U depth st r =
     (case r of
        RConst v \<Rightarrow> (Inr (NVal v), st)
      | RSampler f \<Rightarrow> (let (x, st1) = ndraw st in (Inr (NVal (f x)), st1))
      | RFeature b \<Rightarrow>
          (case U st b of
             (Inl err, st1) \<Rightarrow> (Inl err, st1)
           | (Inr u, st1) \<Rightarrow> (Inr (NFeature b), st1))
      | RDuplicates s f \<Rightarrow>
          (case num_duplicates st s of
             Inl err \<Rightarrow> (Inl err, st)
           | Inr n \<Rightarrow>
               (case duplicates U depth st f n of
                  (Inl err, st1) \<Rightarrow> (Inl err, st1)
                | (Inr cs, st1) \<Rightarrow> (Inr (NFeatures cs), st1))))"

fun PropertyDict_update :: "updater \<Rightarrow> nat \<Rightarrow> nstate \<Rightarrow> addr \<Rightarrow> (string \<times> property) list \<Rightarrow> (error + unit) \<times> nstate" where
  "PropertyDict_update U depth st a [] = (Inr (), st)"
| "PropertyDict_update U depth st a ((key, p) # rest) =
     (case sample U depth st (sampling_rule p) of
        (Inl err, st1) \<Rightarrow> (Inl err, st1)
      | (Inr v, st1) \<Rightarrow> PropertyDict_update U depth (set_value a key v st1) a rest)"

text \<open>
  \<^verbatim>\<open>update\<close>: the parameters are resampled only while the flag is clear, and the flag is set.
  The first argument bounds the depth of nested calls.
\<close>

fun update :: "nat \<Rightarrow> nstate \<Rightarrow> addr \<Rightarrow> (error + unit) \<times> nstate" where
  "update 0 st a = (Inl RecursionError, st)"
| "update (Suc depth) st a =
     (if has_updated_since_last_resolve (nheap st a) then (Inr (), st)
      else
        (case PropertyDict_update (update depth) depth (log_nresample a st) a
                (nproperties (nheap st a)) of
           (Inl err, st1) \<Rightarrow> (Inl err, st1)
         | (Inr u, st1) \<Rightarrow> (Inr (), set_flag a st1)))"

subsection \<open>Composition operators\<close>

text \<open>
  \<^verbatim>\<open>__add__\<close>, \<^verbatim>\<open>__mul__\<close> (also \<^verbatim>\<open>__rmul__\<close>), \<^verbatim>\<open>__pow__\<close> and \<^verbatim>\<open>__call__\<close> construct a
  Branch, a Probability, a Duplicate and a Wrap: the base constructor wraps each keyword
  argument as a Property and clears the flag.
\<close>

definition Feature_add :: "nstate \<Rightarrow> addr \<Rightarrow> addr \<Rightarrow> addr \<times> nstate" where
  "Feature_add st self other =
     alloc \<lparr>nkind = Branch,
            nproperties = [(''feature_1'', Property (RFeature self)),
                           (''feature_2'', Property (RFeature other))],
            has_updated_since_last_resolve = False, attr_feature = None\<rparr> st"

definition Feature_mul :: "nstate \<Rightarrow> addr \<Rightarrow> nrule \<Rightarrow> addr \<times> nstate" where
  "Feature_mul st self other =
     alloc \<lparr>nkind = Probability,
            nproperties = [(''feature'', Property (RFeature self)),
                           (''probability'', Property other),
                           (''random_number'', Property (RSampler VFloat))],
            has_updated_since_last_resolve = False, attr_feature = None\<rparr> st"

definition Feature_pow :: "nstate \<Rightarrow> addr \<Rightarrow> nrule \<Rightarrow> addr \<times> nstate" where
  "Feature_pow st self other =
     alloc \<lparr>nkind = Duplicate,
            nproperties = [(''num_duplicates'', Property other),
                           (''features'', Property (RDuplicates (nnext_addr st) self))],
            has_updated_since_last_resolve = False, attr_feature = Some self\<rparr> st"

definition Feature_call :: "nstate \<Rightarrow> addr \<Rightarrow> addr \<Rightarrow> addr \<times> nstate" where
  "Feature_call st self other =
     alloc \<lparr>nkind = Wrap,
            nproperties = [(''feature_1'', Property (RFeature other)),
                           (''feature_2'', Property (RFeature self))],
            has_updated_since_last_resolve = False, attr_feature = None\<rparr> st"


subsection \<open>Example stores\<close>

text \<open>
  A leaf that adds one to every element; the Probability node that \<^verbatim>\<open>__mul__\<close> builds on it
  with probability 0, after an update that drew one half; a store whose leaf is flagged as
  updated.
\<close>

definition nadd_one :: "nval image \<Rightarrow> nval dict \<Rightarrow> nval image" where
  "nadd_one img args =
     img\<lparr>payload := NDArray (shape_of (payload img)) (map (\<lambda>x. x + 1) (elems (payload img)))\<rparr>"

definition nAddOne :: nfeature where
  "nAddOne =
     \<lparr>nkind = NLeaf ''AddOne'' 1 nadd_one,
      nproperties = [(''sigma'', \<lparr>sampling_rule = RConst (VFloat 2),
                                  prop_value = Some (NVal (VFloat 2))\<rparr>)],
      has_updated_since_last_resolve = False, attr_feature = None\<rparr>"

definition leaf_state :: nstate where
  "leaf_state = \<lparr>nheap = (\<lambda>a. nAddOne), nnext_addr = 1, nrandom = half, nresampled = []\<rparr>"

definition closed_gate :: nfeature where
  "closed_gate =
     \<lparr>nkind = Probability,
      nproperties = [(''feature'', \<lparr>sampling_rule = RFeature 0, prop_value = Some (NFeature 0)\<rparr>),
                     (''probability'', \<lparr>sampling_rule = RConst (VFloat 0),
                                        prop_value = Some (NVal (VFloat 0))\<rparr>),
                     (''random_number'', \<lparr>sampling_rule = RSampler VFloat,
                                          prop_value = Some (NVal (VFloat (1 / 2)))\<rparr>)],
      has_updated_since_last_resolve = True, attr_feature = None\<rparr>"

definition gate_state :: nstate where
  "gate_state =
     \<lparr>nheap = (\<lambda>a. if a = 1 then closed_gate else nAddOne), nnext_addr = 2, nrandom = half,
      nresampled = []\<rparr>"


text \<open>
  The Duplicate node that \<^verbatim>\<open>__pow__\<close> builds on the leaf with count 0, after an update.
\<close>

definition idle_duplicate :: nfeature where
  "idle_duplicate =
     \<lparr>nkind = Duplicate,
      nproperties = [(''num_duplicates'', \<lparr>sampling_rule = RConst (VInt 0),
                                            prop_value = Some (NVal (VInt 0))\<rparr>),
                     (''features'', \<lparr>sampling_rule = RDuplicates 1 0,
                                      prop_value = Some (NFeatures [])\<rparr>)],
      has_updated_since_last_resolve = True, attr_feature = Some 0\<rparr>"

definition duplicate_state :: nstate where
  "duplicate_state =
     \<lparr>nheap = (\<lambda>a. if a = 1 then idle_duplicate else nAddOne), nnext_addr = 2, nrandom = half,
      nresampled = []\<rparr>"

definition blank :: "nval image" where
  "blank = Image (zeros [2, 2])"

subsection \<open>Relations between stores\<close>

text \<open>
  \<open>forget_flags\<close> erases every flag, so that two stores with the same image differ in
  flags only. \<open>gate_decision\<close> is the test \<^verbatim>\<open>Probability.get\<close> takes for a node under given
  global keyword arguments. \<open>nframe\<close>: the second store extends the first, with the random
  source and the instrument untouched. \<open>settled\<close>: an existing node whose flag is set.
  \<open>quiet\<close>: the node is still settled and was not resampled in between.
\<close>

definition forget_flags :: "nstate \<Rightarrow> nstate" where
  "forget_flags st =
     st\<lparr>nheap := (\<lambda>x. (nheap st x)\<lparr>has_updated_since_last_resolve := False\<rparr>)\<rparr>"


definition nframe :: "nstate \<Rightarrow> nstate \<Rightarrow> bool" where
  "nframe st st' =
     (nnext_addr st \<le> nnext_addr st' \<and> nresampled st' = nresampled st \<and>
      nrandom st' = nrandom st \<and>
      (\<forall>y. y < nnext_addr st \<longrightarrow> nheap st' y = nheap st y))"



text \<open>
  \<open>rules_of\<close>: the names and sampling rules of a node's parameters. \<open>newly\<close>: what an
  execution appended to the instrument. \<open>nstep\<close>: what every update call does to the
  store: nodes are only added, the instrument only grows, the random source only advances,
  an existing node keeps its sampling rules, a set flag stays set and its node is not
  resampled, and a flag is set only on a node that was resampled.
\<close>

definition rules_of :: "nstate \<Rightarrow> addr \<Rightarrow> (string \<times> nrule) list" where
  "rules_of st a = map (\<lambda>kp. (fst kp, sampling_rule (snd kp))) (nproperties (nheap st a))"

definition flagged :: "nstate \<Rightarrow> addr \<Rightarrow> bool" where
  "flagged st a = has_updated_since_last_resolve (nheap st a)"

definition newly :: "nstate \<Rightarrow> nstate \<Rightarrow> addr list" where
  "newly st st' = drop (length (nresampled st)) (nresampled st')"

definition nstep :: "nstate \<Rightarrow> nstate \<Rightarrow> bool" where
  "nstep st st' =
     (nnext_addr st \<le> nnext_addr st' \<and>
      nresampled st' = nresampled st @ newly st st' \<and>
      draws (nrandom st') = draws (nrandom st) \<and>
      draw_pos (nrandom st) \<le> draw_pos (nrandom st') \<and>
      (\<forall>z. z < nnext_addr st \<longrightarrow>
         rules_of st' z = rules_of st z \<and>
         (flagged st z \<longrightarrow> flagged st' z \<and> z \<notin> set (newly st st')) \<and>
         (flagged st' z \<longrightarrow> flagged st z \<or> z \<in> set (newly st st'))))"


section \<open>Properties of the older engine\<close>

lemma entry_current_value_random [simp]:
  "entry_current_value (st\<lparr>random := g\<rparr>) e = entry_current_value st e"
  by (cases e) (simp_all add: entry_current_value_def)

lemma get_properties_loop_random [simp]:
  "get_properties_loop (st\<lparr>random := g\<rparr>) es acc = get_properties_loop st es acc"
  by (induction es arbitrary: acc) (auto split: sum.splits)

lemma get_properties_random [simp]: "get_properties (st\<lparr>random := g\<rparr>) a = get_properties st a"
  by (simp add: get_properties_def)

subsection \<open>set_property\<close>

text \<open>
  For a key whose entry is a Distribution (what the base constructor stores) or a feature
  object, \<^verbatim>\<open>set_property(key, value)\<close> succeeds and stores the key string itself as the
  current value: \<^verbatim>\<open>get_property(key)\<close> then returns the key, whatever the value argument was.
\<close>

lemma set_property_wrapped_entry:
  assumes "map_of (properties (heap st a)) key = Some e" and "e = EDist d \<or> e = EFeature b"
  shows "\<exists>st'. set_property st a key val = Inr st' \<and> get_property st' a key = Inr (VStr key)"
  using assms
  by (auto simp: set_property_def get_property_def upd_feature_def entry_current_value_def
                 update_conv')

lemma set_property_sigma:
  "\<exists>st'. set_property single_state 0 ''sigma'' (VInt 7) = Inr st' \<and>
         get_property st' 0 ''sigma'' = Inr (VStr ''sigma'')"
proof -
  have h: "map_of (properties (heap single_state 0)) ''sigma'' = Some (EDist sigma)"
    by (simp add: single_state_def AddOne_def Feature_init_def)
  show ?thesis
    using set_property_wrapped_entry [OF h, of sigma 0 "VInt 7"] by simp
qed

text \<open>
  C9. \<^verbatim>\<open>set_property(key, value)\<close> is to leave the key string as the current value of every
  key present in the parameter dict. On a Load feature it does not: \<^verbatim>\<open>Load.__init__\<close> stores
  the path string itself under \<^verbatim>\<open>"path"\<close>, not wrapped in a Distribution as the base
  constructor wraps every parameter, so the key \<^verbatim>\<open>"path"\<close> is present, \<^verbatim>\<open>set_property\<close>
  raises AttributeError on it and changes nothing, and \<^verbatim>\<open>get_property\<close> raises as well.
\<close>

theorem set_property_load_path_raises:
  "map_of (properties (heap load_state 0)) ''path'' = Some (ERaw (VStr ''data'')) \<and>
   set_property load_state 0 ''path'' (VStr ''other'') = Inl AttributeError \<and>
   get_property load_state 0 ''path'' = Inl AttributeError"
  by (simp add: load_state_def Load_init_def set_property_def get_property_def
                entry_current_value_def)

subsection \<open>Resolving a node without upstream\<close>



subsection \<open>Cycles of upstream references\<close>

lemma resolve_old_cycle:
  assumes "\<forall>x\<in>S. cache (heap st x) = None \<and> (\<exists>y\<in>S. parent (heap st x) = Some (UFeature y))"
  shows "a \<in> S \<Longrightarrow> resolve_old depth st a sh kwargs = (Inl RecursionError, st)"
proof (induction depth arbitrary: a)
  case 0
  then show ?case by simp
next
  case (Suc depth)
  from assms Suc.prems obtain y where y: "y \<in> S" "parent (heap st a) = Some (UFeature y)"
    and c: "cache (heap st a) = None" by blast
  show ?case using Suc.IH[OF y(1)] y(2) c by simp
qed

lemma update_old_parent:
  "update_old depth st history a = (r, st', history') \<Longrightarrow> parent (heap st' x) = parent (heap st x)"
  "update_values depth st history a es = (r, st', history') \<Longrightarrow> parent (heap st' x) = parent (heap st x)"
proof (induction depth st history a and depth st history a es arbitrary: r st' history' and r st' history'
       rule: update_old_update_values.induct)
  case (1 st history a)
  then show ?case by simp
next
  case (2 depth st history a)
  then show ?case
    by (auto simp: next_res_def log_resample_def upd_feature_def split: if_splits kind.splits)
next
  case (3 depth st history a)
  then show ?case by simp
next
  case (4 depth st history a key e rest)
  then show ?case
    by (auto simp: set_entry_def upd_feature_def split: entry.splits prod.splits sum.splits)
qed

lemma update_old_errors:
  "update_old depth st history a = (Inl err, st', history') \<Longrightarrow> err = RecursionError \<or> err = AttributeError"
  "update_values depth st history a es = (Inl err, st', history') \<Longrightarrow> err = RecursionError \<or> err = AttributeError"
proof (induction depth st history a and depth st history a es arbitrary: st' history' and st' history'
       rule: update_old_update_values.induct)
  case (1 st history a)
  then show ?case by simp
next
  case (2 depth st history a)
  then show ?case by (auto split: if_splits kind.splits)
next
  case (3 depth st history a)
  then show ?case by simp
next
  case (4 depth st history a key e rest)
  then show ?case by (auto split: entry.splits prod.splits sum.splits)
qed

lemma rupdate_cycle:
  "\<forall>x\<in>S. \<exists>y\<in>S. parent (heap st x) = Some (UFeature y) \<Longrightarrow> a \<in> S \<Longrightarrow>
   fst (rupdate depth st history a) = Inl RecursionError \<or>
   fst (rupdate depth st history a) = Inl AttributeError"
proof (induction depth arbitrary: st history a)
  case 0
  then show ?case by simp
next
  case (Suc depth)
  obtain r st' h' where u: "update_old depth st history a = (r, st', h')"
    by (cases "update_old depth st history a") auto
  show ?case
  proof (cases r)
    case (Inl err)
    with u update_old_errors(1) show ?thesis by fastforce
  next
    case (Inr unit)
    have inv: "\<forall>x\<in>S. \<exists>y\<in>S. parent (heap st' x) = Some (UFeature y)"
      using Suc.prems(1) update_old_parent(1)[OF u] by simp
    from inv Suc.prems(2) obtain y where y: "y \<in> S" "parent (heap st' a) = Some (UFeature y)"
      by blast
    show ?thesis using Suc.IH[OF inv y(1), of h'] u Inr y(2) by simp
  qed
qed

lemma rupdate_cyclic_heap:
  "heap st = heap cyclic_state \<Longrightarrow> fst (rupdate depth st history 0) = Inl RecursionError"
proof (induction depth arbitrary: st history)
  case 0
  then show ?case by simp
next
  case (Suc depth)
  show ?case
  proof (cases depth)
    case 0
    then show ?thesis by simp
  next
    case (Suc d)
    have k: "kind (heap st 0) = Leaf ''AddOne'' (\<lambda>sh. sh) add_one" "properties (heap st 0) = []"
      "parent (heap st 0) = Some (UFeature 0)"
      using Suc.prems by (simp_all add: cyclic_state_def AddOne_def Feature_init_def)
    show ?thesis
    proof (cases "0 \<in> set history")
      case True
      then show ?thesis using Suc.IH[OF Suc.prems, of history] Suc k by simp
    next
      case False
      have "heap (log_resample 0 st) = heap cyclic_state"
        using Suc.prems by (simp add: log_resample_def)
      from Suc.IH[OF this, of "history @ [0]"] show ?thesis
        using False Suc k by (simp add: log_resample_def)
    qed
  qed
qed

text \<open>
  C4 (as amended). Neither \<^verbatim>\<open>__resolve__\<close> nor \<^verbatim>\<open>__rupdate__\<close> checks for a cycle, and no
  traversal error exists. When the \<^verbatim>\<open>parent\<close> references of a set of features lead back into
  the set (a cycle) and none of them holds a cached result, \<^verbatim>\<open>__resolve__\<close> on any of them
  recurses until the recursion limit and the caller gets RecursionError, whatever the limit
  is, with the store untouched; \<^verbatim>\<open>__rupdate__\<close> on any of them never returns normally: it
  ends in RecursionError, or in the AttributeError of a raw entry met on the way.
\<close>

theorem cycle_exhausts_recursion_limit:
  assumes "\<forall>x\<in>S. cache (heap st x) = None \<and> (\<exists>y\<in>S. parent (heap st x) = Some (UFeature y))"
      and "a \<in> S"
  shows "resolve_old depth st a sh kwargs = (Inl RecursionError, st) \<and>
         (fst (rupdate depth st history a) = Inl RecursionError \<or>
          fst (rupdate depth st history a) = Inl AttributeError)"
proof -
  have "\<forall>x\<in>S. \<exists>y\<in>S. parent (heap st x) = Some (UFeature y)"
    using assms(1) by blast
  then show ?thesis
    using resolve_old_cycle [OF assms(1) assms(2)] rupdate_cycle [OF _ assms(2)] by blast
qed

theorem cycle_exhausts_recursion_limit_witness:
  "cache (heap cyclic_state 0) = None \<and> parent (heap cyclic_state 0) = Some (UFeature 0) \<and>
   resolve_old 1000 cyclic_state 0 [2, 2] [] = (Inl RecursionError, cyclic_state) \<and>
   (fst (rupdate 1000 cyclic_state [] 0) = Inl RecursionError \<or>
    fst (rupdate 1000 cyclic_state [] 0) = Inl AttributeError)"
proof -
  have h: "\<forall>x\<in>{0::nat}. cache (heap cyclic_state x) = None \<and>
       (\<exists>y\<in>{0}. parent (heap cyclic_state x) = Some (UFeature y))"
    by (simp add: cyclic_state_def AddOne_def Feature_init_def)
  have m: "(0::nat) \<in> {0}" by simp
  show ?thesis
    using h cycle_exhausts_recursion_limit [OF h m, of 1000 "[2, 2]" "[]" "[]"] by simp
qed

text \<open>
  A feature that is its own upstream, under Python's default recursion limit of 1000: both
  traversals end in RecursionError, the exhaustion of the call stack.
\<close>

theorem cycle_not_detected_counterexample:
  "fst (resolve_old 1000 cyclic_state 0 [2, 2] []) = Inl RecursionError \<and>
   fst (rupdate 1000 cyclic_state [] 0) = Inl RecursionError"
proof -
  have h: "\<forall>x\<in>{0::nat}. cache (heap cyclic_state x) = None \<and>
       (\<exists>y\<in>{0}. parent (heap cyclic_state x) = Some (UFeature y))"
    by (simp add: cyclic_state_def AddOne_def Feature_init_def)
  have "resolve_old 1000 cyclic_state 0 [2, 2] [] = (Inl RecursionError, cyclic_state)"
    using resolve_old_cycle [OF h, of 0] by simp
  then show ?thesis using rupdate_cyclic_heap [of cyclic_state 1000 "[]"] by simp
qed

subsection \<open>The cache\<close>

lemma resolve_gate_cache:
  "resolve_gate st a sh kwargs img = (Inr out, st') \<Longrightarrow> cache (heap st' a) = Some out"
  by (auto simp: resolve_gate_def store_cache_def upd_feature_def Let_def
           split: prod.splits if_splits sum.splits)

lemma resolve_old_cache:
  "resolve_old depth st a sh kwargs = (Inr out, st') \<Longrightarrow> cache (heap st' a) = Some out"
  by (cases depth)
     (auto split: option.splits upstream.splits sum.splits prod.splits dest: resolve_gate_cache)

lemma resolve_old_cached:
  "cache (heap st a) = Some out \<Longrightarrow> resolve_old (Suc depth) st a sh kwargs = (Inr out, st)"
  by simp

lemma zeros_2_2: "zeros [2, 2] = NDArray [2, 2] [0, 0, 0, 0]"
  by (simp add: zeros_def numeral_eq_Suc)

lemma single_state_resolve:
  "fst (resolve_old 1 single_state 0 [2, 2] []) =
     Inr \<lparr>payload = NDArray [2, 2] [1, 1, 1, 1],
          provenance = [[(''sigma'', VFloat 2), (''name'', VStr ''AddOne'')]]\<rparr>"
  by (simp add: single_state_def AddOne_def Feature_init_def draw_def rand_def half_def
        gate_probability_def input_shape_def resolve_gate_def get_properties_def
        entry_current_value_def sigma_def call_get_def merge_kwargs_def feature_name_def
        append_def add_one_def Image_def zeros_2_2 Let_def)


subsection \<open>The gate\<close>

lemma resolve_gate_skip:
  "draw st = (r, st1) \<Longrightarrow> gate_probability (heap st a) < r \<Longrightarrow>
   resolve_gate st a sh kwargs img = (Inr img, store_cache a img st1)"
  by (simp add: resolve_gate_def Let_def)

lemma old_gate_default_applies:
  assumes "draw st = (r, st1)" and "r < 1" and "probability (heap st a) = None \<or> probability (heap st a) = Some 1"
  shows "resolve_gate st a sh kwargs img =
           (case get_properties st1 a of
              Inl err \<Rightarrow> (Inl err, st1)
            | Inr props \<Rightarrow>
                (case call_get (kind (heap st1 a)) sh img props kwargs of
                   Inl err \<Rightarrow> (Inl err, st1)
                 | Inr out \<Rightarrow>
                     (let out' = append out
                           (AList.update ''name'' (VStr (feature_name (kind (heap st1 a)))) props)
                      in (Inr out', store_cache a out' st1))))"
  using assms by (auto simp: resolve_gate_def gate_probability_def Let_def)

subsection \<open>The history of an update pass\<close>




lemma resampled_upd_feature [simp]: "resampled (upd_feature a f st) = resampled st"
  by (simp add: upd_feature_def)




subsection \<open>Deep copies and operators\<close>

lemma oframe_refl [simp]: "oframe st st"
  by (simp add: oframe_def)






























lemma old_gate_group_raises:
  assumes "mul_old depth st self p = (Inr G, st')"
  shows "resolve_old (Suc depth') st' G sh kwargs = (Inl AttributeError, st')"
proof -
  obtain r1 st1 m1 where d: "deepcopy_old depth st (\<lambda>x. None) self = (r1, st1, m1)"
    by (cases "deepcopy_old depth st (\<lambda>x. None) self") auto
  obtain c where c: "r1 = Inr c" using assms d by (cases r1) (auto simp: mul_old_def)
  have G: "G = next_addr st1"
    and s: "st' = upd_feature (next_addr st1) (\<lambda>f. f\<lparr>probability := Some p\<rparr>)
                    (snd (alloc_old (Group_init c) st1))"
    using assms d c by (auto simp: mul_old_def alloc_old_def)
  have f: "heap st' G = (Group_init c)\<lparr>probability := Some p\<rparr>"
    using G s by (simp add: upd_feature_def alloc_old_def)
  have "input_shape st' G sh = Inl AttributeError"
    using f by (simp add: input_shape_def Group_init_def get_property_def
                     entry_current_value_def split: option.splits sum.splits)
  then show ?thesis using f by (simp add: Group_init_def)
qed





section \<open>Properties of the newer engine\<close>

subsection \<open>Resolving changes flags only, and does not depend on them\<close>

lemma forget_flags_clear_flag [simp]: "forget_flags (clear_flag a st) = forget_flags st"
  by (auto simp: forget_flags_def clear_flag_def upd_nfeature_def fun_eq_iff)

lemma record_output_flags:
  "record_output st a input kw out = (r, st') \<Longrightarrow> forget_flags st' = forget_flags st"
  by (auto simp: record_output_def split: sum.splits bool.splits)

lemma resolve_all_flags:
  assumes "\<And>st a img kw r st'. R st a img kw = (r, st') \<Longrightarrow> forget_flags st' = forget_flags st"
  shows "resolve_all R st fs img kw = (r, st') \<Longrightarrow> forget_flags st' = forget_flags st"
proof (induction fs arbitrary: st img r st')
  case Nil
  then show ?case by simp
next
  case (Cons f fs)
  then show ?case using assms by (fastforce split: sum.splits prod.splits)
qed

lemma class_get_flags:
  assumes "\<And>st a img kw r st'. R st a img kw = (r, st') \<Longrightarrow> forget_flags st' = forget_flags st"
  shows "class_get R k st img input = (r, st') \<Longrightarrow> forget_flags st' = forget_flags st"
proof (cases k)
  case (NLeaf nm v g)
  then show "class_get R k st img input = (r, st') \<Longrightarrow> ?thesis" by (auto simp: class_get_def)
next
  case Branch
  then show "class_get R k st img input = (r, st') \<Longrightarrow> ?thesis"
    using assms by (fastforce simp: class_get_def Branch_get_def Let_def split: sum.splits prod.splits)
next
  case Probability
  then show "class_get R k st img input = (r, st') \<Longrightarrow> ?thesis"
    using assms
    by (fastforce simp: class_get_def Probability_get_def Let_def split: sum.splits prod.splits bool.splits)
next
  case Duplicate
  then show "class_get R k st img input = (r, st') \<Longrightarrow> ?thesis"
    using resolve_all_flags[of R, OF assms]
    by (fastforce simp: class_get_def Duplicate_get_def Let_def split: sum.splits prod.splits)
next
  case Wrap
  then show "class_get R k st img input = (r, st') \<Longrightarrow> ?thesis"
    using assms by (fastforce simp: class_get_def Wrap_get_def Let_def split: sum.splits prod.splits)
qed

lemma resolve_flags:
  "resolve d st a img kw = (r, st') \<Longrightarrow> forget_flags st' = forget_flags st"
proof (induction d arbitrary: st a img kw r st')
  case 0
  then show ?case by simp
next
  case (Suc d)
  show ?case using Suc.prems class_get_flags[of "resolve d", OF Suc.IH]
    by (fastforce split: sum.splits prod.splits dest: record_output_flags)
qed

lemma forget_flags_eqD:
  assumes "forget_flags st1 = forget_flags st2"
  shows "nkind (nheap st1 x) = nkind (nheap st2 x)"
    and "nproperties (nheap st1 x) = nproperties (nheap st2 x)"
    and "attr_feature (nheap st1 x) = attr_feature (nheap st2 x)"
    and "nnext_addr st1 = nnext_addr st2"
    and "nrandom st1 = nrandom st2"
    and "nresampled st1 = nresampled st2"
proof -
  have h: "nheap (forget_flags st1) x = nheap (forget_flags st2) x"
    using assms by simp
  have "nkind (nheap (forget_flags st1) x) = nkind (nheap (forget_flags st2) x)"
       "nproperties (nheap (forget_flags st1) x) = nproperties (nheap (forget_flags st2) x)"
       "attr_feature (nheap (forget_flags st1) x) = attr_feature (nheap (forget_flags st2) x)"
    using h by simp_all
  then show "nkind (nheap st1 x) = nkind (nheap st2 x)"
    and "nproperties (nheap st1 x) = nproperties (nheap st2 x)"
    and "attr_feature (nheap st1 x) = attr_feature (nheap st2 x)"
    by (simp_all add: forget_flags_def)
  have "nnext_addr (forget_flags st1) = nnext_addr (forget_flags st2)"
       "nrandom (forget_flags st1) = nrandom (forget_flags st2)"
       "nresampled (forget_flags st1) = nresampled (forget_flags st2)"
    using assms by simp_all
  then show "nnext_addr st1 = nnext_addr st2" and "nrandom st1 = nrandom st2"
    and "nresampled st1 = nresampled st2"
    by (simp_all add: forget_flags_def)
qed

lemma feature_input_flags:
  "forget_flags st1 = forget_flags st2 \<Longrightarrow> feature_input st1 a kw = feature_input st2 a kw"
  by (simp add: feature_input_def current_value_dict_def forget_flags_eqD(2)[of st1 st2])

lemma current_value_dict_flags:
  "forget_flags st1 = forget_flags st2 \<Longrightarrow> current_value_dict st1 a = current_value_dict st2 a"
  by (simp add: current_value_dict_def forget_flags_eqD(2)[of st1 st2])

lemma record_output_fst_flags:
  "forget_flags st1 = forget_flags st2 \<Longrightarrow>
   fst (record_output st1 a input kw out) = fst (record_output st2 a input kw out)"
  by (simp add: record_output_def forget_flags_eqD(1)[of st1 st2] split: sum.splits bool.splits)

lemma resolve_all_fst_flags:
  assumes F: "\<And>st a img kw r st'. R st a img kw = (r, st') \<Longrightarrow> forget_flags st' = forget_flags st"
      and Q: "\<And>st1 st2 a img kw. forget_flags st1 = forget_flags st2 \<Longrightarrow>
                 fst (R st1 a img kw) = fst (R st2 a img kw)"
  shows "forget_flags st1 = forget_flags st2 \<Longrightarrow>
         fst (resolve_all R st1 fs img kw) = fst (resolve_all R st2 fs img kw)"
proof (induction fs arbitrary: st1 st2 img)
  case Nil
  then show ?case by simp
next
  case (Cons f fs)
  obtain r1 s1 where a1: "R st1 f img kw = (r1, s1)" by (cases "R st1 f img kw") auto
  obtain r2 s2 where a2: "R st2 f img kw = (r2, s2)" by (cases "R st2 f img kw") auto
  have r: "r1 = r2" using Q[OF Cons.prems, of f img kw] a1 a2 by simp
  have s: "forget_flags s1 = forget_flags s2" using F[OF a1] F[OF a2] Cons.prems by simp
  show ?case using a1 a2 r Cons.IH[OF s] by (simp split: sum.splits)
qed

lemma class_get_fst_flags:
  assumes F: "\<And>st a img kw r st'. R st a img kw = (r, st') \<Longrightarrow> forget_flags st' = forget_flags st"
      and Q: "\<And>st1 st2 a img kw. forget_flags st1 = forget_flags st2 \<Longrightarrow>
                 fst (R st1 a img kw) = fst (R st2 a img kw)"
      and e: "forget_flags st1 = forget_flags st2"
  shows "fst (class_get R k st1 img input) = fst (class_get R k st2 img input)"
proof -
  have seq: "fst (case R st1 f1 img kw1 of (Inl err, s) \<Rightarrow> (Inl err, s)
                  | (Inr img1, s) \<Rightarrow> K s img1)
           = fst (case R st2 f1 img kw1 of (Inl err, s) \<Rightarrow> (Inl err, s)
                  | (Inr img1, s) \<Rightarrow> K s img1)"
    if K: "\<And>s1 s2 i. forget_flags s1 = forget_flags s2 \<Longrightarrow> fst (K s1 i) = fst (K s2 i)"
    for f1 kw1 and K :: "nstate \<Rightarrow> nval image \<Rightarrow> (error + nval image) \<times> nstate"
  proof -
    obtain r1 s1 where a1: "R st1 f1 img kw1 = (r1, s1)" by (cases "R st1 f1 img kw1") auto
    obtain r2 s2 where a2: "R st2 f1 img kw1 = (r2, s2)" by (cases "R st2 f1 img kw1") auto
    have r: "r1 = r2" using Q[OF e, of f1 img kw1] a1 a2 by simp
    have s: "forget_flags s1 = forget_flags s2" using F[OF a1] F[OF a2] e by simp
    show ?thesis using a1 a2 r K[OF s] by (simp split: sum.splits)
  qed
  show ?thesis
  proof (cases k)
    case (NLeaf nm v g)
    then show ?thesis by (simp add: class_get_def)
  next
    case Branch
    have "fst (Branch_get R st1 img input) = fst (Branch_get R st2 img input)"
    proof (cases "as_feature (map_of input ''feature_1'')")
      case (Inl err)
      then show ?thesis by (simp add: Branch_get_def Let_def)
    next
      case (Inr f1)
      have "fst (case R st1 f1 img (without [''feature_1'', ''feature_2''] input) of
                   (Inl err, s) \<Rightarrow> (Inl err, s)
                 | (Inr img1, s) \<Rightarrow>
                     (case as_feature (map_of input ''feature_2'') of
                        Inl err \<Rightarrow> (Inl err, s)
                      | Inr f2 \<Rightarrow> R s f2 img1 (without [''feature_1'', ''feature_2''] input)))
          = fst (case R st2 f1 img (without [''feature_1'', ''feature_2''] input) of
                   (Inl err, s) \<Rightarrow> (Inl err, s)
                 | (Inr img1, s) \<Rightarrow>
                     (case as_feature (map_of input ''feature_2'') of
                        Inl err \<Rightarrow> (Inl err, s)
                      | Inr f2 \<Rightarrow> R s f2 img1 (without [''feature_1'', ''feature_2''] input)))"
      proof (rule seq)
        fix s1 s2 :: nstate and i :: "nval image"
        assume "forget_flags s1 = forget_flags s2"
        from Q[OF this]
        show "fst (case as_feature (map_of input ''feature_2'') of
                     Inl err \<Rightarrow> (Inl err, s1)
                   | Inr f2 \<Rightarrow> R s1 f2 i (without [''feature_1'', ''feature_2''] input))
            = fst (case as_feature (map_of input ''feature_2'') of
                     Inl err \<Rightarrow> (Inl err, s2)
                   | Inr f2 \<Rightarrow> R s2 f2 i (without [''feature_1'', ''feature_2''] input))"
          by (cases "as_feature (map_of input ''feature_2'')") simp_all
      qed
      then show ?thesis using Inr by (simp add: Branch_get_def Let_def)
    qed
    then show ?thesis using Branch by (simp add: class_get_def)
  next
    case Probability
    then show ?thesis using Q[OF e]
      by (simp add: class_get_def Probability_get_def Let_def split: sum.splits bool.splits)
  next
    case Duplicate
    then show ?thesis using resolve_all_fst_flags[of R, OF F Q e]
      by (simp add: class_get_def Duplicate_get_def Let_def split: sum.splits)
  next
    case Wrap
    have "fst (Wrap_get R st1 img input) = fst (Wrap_get R st2 img input)"
    proof (cases "as_feature (map_of input ''feature_1'')")
      case (Inl err)
      then show ?thesis by (simp add: Wrap_get_def Let_def)
    next
      case f1: (Inr f1)
      show ?thesis
      proof (cases "as_feature (map_of input ''feature_2'')")
        case (Inl err)
        then show ?thesis using f1 by (simp add: Wrap_get_def Let_def)
      next
        case f2: (Inr f2)
        show ?thesis
        proof (cases "current_value_dict st2 f2")
          case (Inl err)
          then show ?thesis using f1 f2 current_value_dict_flags[OF e, of f2]
            by (simp add: Wrap_get_def Let_def)
        next
          case d2: (Inr d2)
          show ?thesis
          proof (cases "merge_kwargs d2 (without [''feature_1'', ''feature_2''] input)")
            case (Inl err)
            then show ?thesis using f1 f2 d2 current_value_dict_flags[OF e, of f2]
              by (simp add: Wrap_get_def Let_def)
          next
            case (Inr kwargs1)
            have "fst (case R st1 f1 img kwargs1 of
                         (Inl err, s) \<Rightarrow> (Inl err, s)
                       | (Inr img1, s) \<Rightarrow>
                           R s f2 img1 (without [''feature_1'', ''feature_2''] input))
                = fst (case R st2 f1 img kwargs1 of
                         (Inl err, s) \<Rightarrow> (Inl err, s)
                       | (Inr img1, s) \<Rightarrow>
                           R s f2 img1 (without [''feature_1'', ''feature_2''] input))"
              by (rule seq) (rule Q)
            then show ?thesis using f1 f2 d2 Inr current_value_dict_flags[OF e, of f2]
              by (simp add: Wrap_get_def Let_def)
          qed
        qed
      qed
    qed
    then show ?thesis using Wrap by (simp add: class_get_def)
  qed
qed

lemma resolve_fst_flags:
  "forget_flags st1 = forget_flags st2 \<Longrightarrow>
   fst (resolve d st1 a img kw) = fst (resolve d st2 a img kw)"
proof (induction d arbitrary: st1 st2 a img kw)
  case 0
  then show ?case by simp
next
  case (Suc d)
  note e = Suc.prems
  show ?case
  proof (cases "feature_input st2 a kw")
    case (Inl err)
    then show ?thesis using feature_input_flags[OF e, of a kw] by simp
  next
    case (Inr input)
    obtain r1 s1 where a1: "class_get (resolve d) (nkind (nheap st1 a)) st1 img input = (r1, s1)"
      by (cases "class_get (resolve d) (nkind (nheap st1 a)) st1 img input") auto
    obtain r2 s2 where a2: "class_get (resolve d) (nkind (nheap st2 a)) st2 img input = (r2, s2)"
      by (cases "class_get (resolve d) (nkind (nheap st2 a)) st2 img input") auto
    have k: "nkind (nheap st1 a) = nkind (nheap st2 a)" using forget_flags_eqD(1)[OF e] .
    have r: "r1 = r2"
      using class_get_fst_flags[where R = "resolve d" and k = "nkind (nheap st2 a)"
                                  and img = img and input = input,
                                OF resolve_flags Suc.IH e]
            a1 a2 k by simp
    have s: "forget_flags s1 = forget_flags s2"
      using class_get_flags[of "resolve d", OF resolve_flags a1]
            class_get_flags[of "resolve d", OF resolve_flags a2] e by simp
    show ?thesis
      using Inr feature_input_flags[OF e, of a kw] a1 a2 r record_output_fst_flags[OF s]
      by (simp split: sum.splits)
  qed
qed

lemma resolve_twice:
  "fst (resolve d (snd (resolve d st a img kw)) a img kw) = fst (resolve d st a img kw)"
proof -
  have "forget_flags (snd (resolve d st a img kw)) = forget_flags st"
    using resolve_flags[of d st a img kw] by (cases "resolve d st a img kw") auto
  then show ?thesis by (rule resolve_fst_flags)
qed


lemma leaf_state_resolve:
  "fst (resolve 2 leaf_state 0 blank []) =
     Inr \<lparr>payload = NDArray [2, 2] [1, 1, 1, 1],
          provenance = [[(''sigma'', NVal (VFloat 2)), (''name'', NVal (VStr ''AddOne''))]]\<rparr>"
  by (simp add: numeral_eq_Suc leaf_state_def nAddOne_def feature_input_def
        current_value_dict_def dict_update_def class_get_def record_output_def
        property_verbosity_of_def class_name_def append_def nadd_one_def blank_def Image_def
        zeros_def)

subsection \<open>The gate\<close>

lemma gate_opens_float:
  "map_of input ''random_number'' = Some (NVal (VFloat r)) \<Longrightarrow>
   map_of input ''probability'' = Some (NVal (VFloat p)) \<Longrightarrow>
   gate_opens input = Inr (r < p)"
  by (simp add: gate_opens_def)

lemma gate_opens_int:
  "map_of input ''random_number'' = Some (NVal (VFloat r)) \<Longrightarrow>
   map_of input ''probability'' = Some (NVal (VInt i)) \<Longrightarrow>
   gate_opens input = Inr (r < real_of_int i)"
  by (simp add: gate_opens_def)

lemma new_gate_one_opens:
  assumes "map_of input ''random_number'' = Some (NVal (VFloat r))" and "r < 1"
      and "map_of input ''probability'' = Some (NVal (VInt 1)) \<or>
           map_of input ''probability'' = Some (NVal (VFloat 1))"
  shows "gate_opens input = Inr True"
  using assms by (auto simp: gate_opens_def)

lemma new_gate_zero_stays_shut:
  assumes "map_of input ''random_number'' = Some (NVal (VFloat r))" and "0 \<le> r"
      and "map_of input ''probability'' = Some (NVal (VInt 0)) \<or>
           map_of input ''probability'' = Some (NVal (VFloat 0))"
  shows "gate_opens input = Inr False"
  using assms by (auto simp: gate_opens_def)

lemma resolve_Probability_skip:
  assumes "nkind (nheap st a) = Probability"
      and "feature_input st a global_kwargs = Inr input"
      and "gate_opens input = Inr False"
  shows "resolve (Suc depth) st a img global_kwargs = record_output st a input global_kwargs img"
  using assms by (simp add: class_get_def Probability_get_def)

lemma record_output_default:
  "map_of global_kwargs ''property_verbosity'' = None \<Longrightarrow> 1 < property_verbosity_of (nkind (nheap st a)) \<Longrightarrow>
   record_output st a input global_kwargs out = (Inr out, clear_flag a st)"
  by (simp add: record_output_def)

lemma gate_state_input:
  "feature_input gate_state 1 [] =
     Inr [(''feature'', NFeature 0), (''probability'', NVal (VFloat 0)),
          (''random_number'', NVal (VFloat (1 / 2)))]"
  by (simp add: feature_input_def current_value_dict_def gate_state_def closed_gate_def
        dict_update_def)

subsection \<open>Deep copies extend the store\<close>

lemma nframe_refl [simp]: "nframe st st"
  by (simp add: nframe_def)










subsection \<open>A settled node is not resampled\<close>















subsection \<open>What an update changes\<close>

lemma newly_self [simp]: "newly st st = []"
  by (simp add: newly_def)



lemma nstep_refl [simp]: "nstep st st"
  by (simp add: nstep_def)










subsection \<open>Operators\<close>

lemma Feature_add_shares:
  "fst (Feature_add nst a b) = nnext_addr nst \<and> nframe nst (snd (Feature_add nst a b)) \<and>
   map (\<lambda>kp. (fst kp, sampling_rule (snd kp)))
       (nproperties (nheap (snd (Feature_add nst a b)) (nnext_addr nst)))
     = [(''feature_1'', RFeature a), (''feature_2'', RFeature b)]"
  by (simp add: Feature_add_def alloc_def nframe_def Property_def)

lemma Feature_mul_shares:
  "fst (Feature_mul nst a p) = nnext_addr nst \<and> nframe nst (snd (Feature_mul nst a p)) \<and>
   map (\<lambda>kp. (fst kp, sampling_rule (snd kp)))
       (nproperties (nheap (snd (Feature_mul nst a p)) (nnext_addr nst)))
     = [(''feature'', RFeature a), (''probability'', p), (''random_number'', RSampler VFloat)]"
  by (simp add: Feature_mul_def alloc_def nframe_def Property_def)

lemma Feature_pow_shares:
  "fst (Feature_pow nst a n) = nnext_addr nst \<and> nframe nst (snd (Feature_pow nst a n)) \<and>
   map (\<lambda>kp. (fst kp, sampling_rule (snd kp)))
       (nproperties (nheap (snd (Feature_pow nst a n)) (nnext_addr nst)))
     = [(''num_duplicates'', n), (''features'', RDuplicates (nnext_addr nst) a)] \<and>
   attr_feature (nheap (snd (Feature_pow nst a n)) (nnext_addr nst)) = Some a"
  by (simp add: Feature_pow_def alloc_def nframe_def Property_def)




subsection \<open>Duplication\<close>

lemma sample_RDuplicates_none:
  assumes "map_of (nproperties (nheap st s)) ''num_duplicates'' = Some p"
      and "prop_value p = Some (NVal (VInt k))" and "k \<le> 0"
  shows "sample U depth st (RDuplicates s f) = (Inr (NFeatures []), st)"
  using assms by (simp add: sample_def num_duplicates_def)

lemma py_range_not_int: "(\<And>k. v \<noteq> NVal (VInt k)) \<Longrightarrow> py_range v = Inl TypeError"
  by (cases v rule: py_range.cases) auto

lemma sample_RDuplicates_TypeError:
  assumes "map_of (nproperties (nheap st s)) ''num_duplicates'' = Some p"
      and "prop_value p = Some v" and "\<And>k. v \<noteq> NVal (VInt k)"
  shows "sample U depth st (RDuplicates s f) = (Inl TypeError, st)"
  using assms py_range_not_int[of v] by (simp add: sample_def num_duplicates_def)

lemma resolve_Duplicate_empty:
  assumes "nkind (nheap st d) = Duplicate"
      and "feature_input st d global_kwargs = Inr input"
      and "map_of input ''features'' = Some (NFeatures [])"
  shows "resolve (Suc depth) st d img global_kwargs = record_output st d input global_kwargs img"
  using assms by (simp add: class_get_def Duplicate_get_def)

lemma duplicate_state_input:
  "feature_input duplicate_state 1 [] =
     Inr [(''num_duplicates'', NVal (VInt 0)), (''features'', NFeatures [])]"
  by (simp add: feature_input_def current_value_dict_def duplicate_state_def idle_duplicate_def
        dict_update_def)

lemma dict_update_keys:
  "fst ` set (dict_update d kw) = fst ` set d \<union> fst ` set kw"
  unfolding dict_update_def
  by (induction kw arbitrary: d) (auto simp: AList.dom_update)

lemma dict_update_other:
  "k \<notin> fst ` set kw \<Longrightarrow> map_of (dict_update d kw) k = map_of d k"
  unfolding dict_update_def
  by (induction kw arbitrary: d) (auto simp: update_conv')

lemma sample_plain:
  assumes "r = RConst c \<or> r = RSampler g" and "sample U depth st r = (rv, st1)"
  shows "nheap st1 = nheap st \<and> nnext_addr st1 = nnext_addr st \<and> nresampled st1 = nresampled st"
  using assms by (auto simp: sample_def ndraw_def rand_def Let_def split: prod.splits)

lemma duplicate_update_steps:
  assumes node: "nheap st d = \<lparr>nkind = Duplicate,
                    nproperties = [(''num_duplicates'', pn), (''features'', pf)],
                    has_updated_since_last_resolve = False, attr_feature = af\<rparr>"
      and rule: "sampling_rule pf = RDuplicates d f"
      and plain: "sampling_rule pn = RConst c \<or> sampling_rule pn = RSampler g"
      and count: "sample (update depth) depth (log_nresample d st) (sampling_rule pn)
                    = (Inr (NVal v), st1)"
  shows "update (Suc depth) st d =
           (case py_range (NVal v) of
              Inl err \<Rightarrow> (Inl err, set_value d ''num_duplicates'' (NVal v) st1)
            | Inr n \<Rightarrow>
                (case duplicates (update depth) depth (set_value d ''num_duplicates'' (NVal v) st1) f n of
                   (Inl err, st2) \<Rightarrow> (Inl err, st2)
                 | (Inr cs, st2) \<Rightarrow> (Inr (), set_flag d (set_value d ''features'' (NFeatures cs) st2))))"
proof -
  have h: "nheap st1 = nheap st"
    using sample_plain[OF plain count] by (simp add: log_nresample_def)
  have n: "num_duplicates (set_value d ''num_duplicates'' (NVal v) st1) d = py_range (NVal v)"
    by (simp add: num_duplicates_def set_value_def upd_nfeature_def h node)
  show ?thesis
    using node rule count n
    by (simp add: sample_def split: sum.splits prod.splits)
qed

text \<open>
  C7 (as amended). The duplication count is read when Duplicate's sampler runs, during the
  update of the Duplicate node. When the count sampled in that update is an integer that is
  zero or negative, the update returns normally and stores the empty list of copies, and a
  resolve of the node then returns its input unchanged (under the default verbosity, with no
  provenance record; the keyword arguments of the resolve must not replace \<^verbatim>\<open>features\<close>).
  When the count is anything but an integer (a float, integral or not, a string, None),
  the update raises TypeError to its caller, the count stored and nothing else changed. No
  sampling error of its own exists.
\<close>

theorem duplication_count_policy:
  assumes node: "nheap st d = \<lparr>nkind = Duplicate,
                    nproperties = [(''num_duplicates'', pn), (''features'', pf)],
                    has_updated_since_last_resolve = False, attr_feature = af\<rparr>"
      and rule: "sampling_rule pf = RDuplicates d f"
      and plain: "sampling_rule pn = RConst c \<or> sampling_rule pn = RSampler g"
      and count: "sample (update depth) depth (log_nresample d st) (sampling_rule pn)
                    = (Inr (NVal v), st1)"
      and kw: "''features'' \<notin> fst ` set kw" "''image'' \<notin> fst ` set kw"
              "map_of kw ''property_verbosity'' = None"
      and st2: "st2 = set_flag d (set_value d ''features'' (NFeatures [])
                        (set_value d ''num_duplicates'' (NVal v) st1))"
  shows "(\<forall>k. v = VInt k \<and> k \<le> 0 \<longrightarrow>
            update (Suc depth) st d = (Inr (), st2) \<and>
            current_value_dict st2 d
              = Inr [(''num_duplicates'', NVal v), (''features'', NFeatures [])] \<and>
            resolve (Suc depth') st2 d img kw = (Inr img, clear_flag d st2)) \<and>
         ((\<forall>k. v \<noteq> VInt k) \<longrightarrow>
            update (Suc depth) st d
              = (Inl TypeError, set_value d ''num_duplicates'' (NVal v) st1))"
proof -
  note steps = duplicate_update_steps[OF node rule plain count]
  have h: "nheap st1 = nheap st"
    using sample_plain[OF plain count] by (simp add: log_nresample_def)
  have cur: "current_value_dict st2 d
               = Inr [(''num_duplicates'', NVal v), (''features'', NFeatures [])]"
    by (simp add: st2 current_value_dict_def set_flag_def set_value_def upd_nfeature_def h node)
  have kind: "nkind (nheap st2 d) = Duplicate"
    by (simp add: st2 set_flag_def set_value_def upd_nfeature_def h node)
  let ?input = "dict_update [(''num_duplicates'', NVal v), (''features'', NFeatures [])] kw"
  have "''image'' \<notin> fst ` set ?input"
    using kw(2) by (simp add: dict_update_keys)
  then have fi: "feature_input st2 d kw = Inr ?input"
    by (simp add: feature_input_def cur)
  have mf: "map_of ?input ''features'' = Some (NFeatures [])"
    using dict_update_other[OF kw(1)] by simp
  have res: "resolve (Suc depth') st2 d img kw = (Inr img, clear_flag d st2)"
    using resolve_Duplicate_empty[OF kind fi mf, of depth' img]
          record_output_default[OF kw(3), of st2 d ?input img] kind
    by (simp add: property_verbosity_of_def)
  have a: "\<forall>k. v = VInt k \<and> k \<le> 0 \<longrightarrow> update (Suc depth) st d = (Inr (), st2)"
    using steps by (auto simp: st2)
  have b: "(\<forall>k. v \<noteq> VInt k) \<longrightarrow>
            update (Suc depth) st d
              = (Inl TypeError, set_value d ''num_duplicates'' (NVal v) st1)"
  proof
    assume "\<forall>k. v \<noteq> VInt k"
    then have "py_range (NVal v) = Inl TypeError" by (intro py_range_not_int) auto
    then show "update (Suc depth) st d
              = (Inl TypeError, set_value d ''num_duplicates'' (NVal v) st1)"
      using steps by simp
  qed
  show ?thesis using a b cur res by blast
qed

theorem duplication_count_policy_witness:
  "nheap (snd (Feature_pow leaf_state 0 (RConst (VInt (- 1))))) 1 =
     \<lparr>nkind = Duplicate,
      nproperties = [(''num_duplicates'', Property (RConst (VInt (- 1)))),
                     (''features'', Property (RDuplicates 1 0))],
      has_updated_since_last_resolve = False, attr_feature = Some 0\<rparr> \<and>
   fst (update 1 (snd (Feature_pow leaf_state 0 (RConst (VInt (- 1))))) 1) = Inr () \<and>
   fst (resolve 1 (snd (update 1 (snd (Feature_pow leaf_state 0 (RConst (VInt (- 1))))) 1)) 1 blank [])
     = Inr blank"
proof -
  let ?st = "snd (Feature_pow leaf_state 0 (RConst (VInt (- 1))))"
  have node: "nheap ?st 1 =
     \<lparr>nkind = Duplicate,
      nproperties = [(''num_duplicates'', Property (RConst (VInt (- 1)))),
                     (''features'', Property (RDuplicates 1 0))],
      has_updated_since_last_resolve = False, attr_feature = Some 0\<rparr>"
    by (simp add: Feature_pow_def alloc_def leaf_state_def)
  have rule: "sampling_rule (Property (RDuplicates 1 0)) = RDuplicates 1 0"
    by (simp add: Property_def)
  have plain: "sampling_rule (Property (RConst (VInt (- 1)))) = RConst (VInt (- 1)) \<or>
               sampling_rule (Property (RConst (VInt (- 1)))) = RSampler VFloat"
    by (simp add: Property_def)
  have count: "sample (update 0) 0 (log_nresample 1 ?st)
                 (sampling_rule (Property (RConst (VInt (- 1)))))
               = (Inr (NVal (VInt (- 1))), log_nresample 1 ?st)"
    by (simp add: Property_def sample_def)
  have kw: "''features'' \<notin> fst ` set ([] :: nval dict)" "''image'' \<notin> fst ` set ([] :: nval dict)"
           "map_of ([] :: nval dict) ''property_verbosity'' = None"
    by simp_all
  show ?thesis
    using duplication_count_policy [OF node rule plain count kw refl, of 0 blank] node
    by simp
qed


text \<open>
  A count of \<open>-1\<close> raises nothing, in the update or in the resolve, which returns the input;
  a count of \<open>2.5\<close> raises TypeError in the update.
\<close>

theorem duplication_count_counterexample:
  "fst (update 3 (snd (Feature_pow leaf_state 0 (RConst (VInt (- 1))))) 1) = Inr () \<and>
   fst (resolve 2 (snd (update 3 (snd (Feature_pow leaf_state 0 (RConst (VInt (- 1))))) 1)) 1 blank [])
     = Inr blank \<and>
   fst (update 3 (snd (Feature_pow leaf_state 0 (RConst (VFloat (5 / 2))))) 1) = Inl TypeError"
  by (simp add: numeral_eq_Suc Feature_pow_def alloc_def leaf_state_def Property_def
        log_nresample_def sample_def set_value_def upd_nfeature_def num_duplicates_def
        set_flag_def feature_input_def current_value_dict_def dict_update_def
        class_get_def Duplicate_get_def without_def record_output_def
        property_verbosity_of_def clear_flag_def)

subsection \<open>The gate's draw\<close>








section \<open>Properties of both engines\<close>

text \<open>
  C1. Two consecutive resolve calls on the same node, with no update in between, return the
  same result. In the older engine a call that returns has stored its result in the cache
  field, and the next call returns that field. In the newer engine, which keeps no cache,
  the second call (same input image, same keyword arguments) recomputes the same payload
  and provenance, or raises the same error.
\<close>

theorem consecutive_resolves_identical:
  assumes "resolve_old depth st a sh kwargs = (Inr out, st')"
  shows "resolve_old depth st' a sh kwargs = (Inr out, st') \<and>
         fst (resolve ndepth (snd (resolve ndepth nst b img global_kwargs)) b img global_kwargs)
           = fst (resolve ndepth nst b img global_kwargs)"
proof -
  obtain d where d: "depth = Suc d" using assms by (cases depth) auto
  have "resolve_old depth st' a sh kwargs = (Inr out, st')"
    unfolding d using resolve_old_cache[OF assms] by (rule resolve_old_cached)
  then show ?thesis using resolve_twice by simp
qed

theorem consecutive_resolves_identical_witness:
  "fst (resolve_old 1 single_state 0 [2, 2] []) =
     Inr \<lparr>payload = NDArray [2, 2] [1, 1, 1, 1],
          provenance = [[(''sigma'', VFloat 2), (''name'', VStr ''AddOne'')]]\<rparr> \<and>
   fst (resolve_old 1 (snd (resolve_old 1 single_state 0 [2, 2] [])) 0 [2, 2] []) =
     Inr \<lparr>payload = NDArray [2, 2] [1, 1, 1, 1],
          provenance = [[(''sigma'', VFloat 2), (''name'', VStr ''AddOne'')]]\<rparr> \<and>
   fst (resolve 2 (snd (resolve 2 leaf_state 0 blank [])) 0 blank []) =
     Inr \<lparr>payload = NDArray [2, 2] [1, 1, 1, 1],
          provenance = [[(''sigma'', NVal (VFloat 2)), (''name'', NVal (VStr ''AddOne''))]]\<rparr>"
proof -
  have h: "resolve_old 1 single_state 0 [2, 2] [] =
             (Inr \<lparr>payload = NDArray [2, 2] [1, 1, 1, 1],
                   provenance = [[(''sigma'', VFloat 2), (''name'', VStr ''AddOne'')]]\<rparr>,
              snd (resolve_old 1 single_state 0 [2, 2] []))"
    using single_state_resolve by (metis prod.collapse)
  show ?thesis
    using consecutive_resolves_identical [OF h, of 2 leaf_state 0 blank "[]"]
          single_state_resolve leaf_state_resolve
    by simp
qed






text \<open>
  C5. The older engine tests \<^verbatim>\<open>np.random.rand() <= p\<close>: with probability 0 and a draw of
  exactly 0, which lies in \<open>[0,1)\<close>, the transformation is applied (the newer engine tests
  \<^verbatim>\<open>random_number < probability\<close> and passes the input through).
\<close>

theorem old_gate_probability_zero_applies_at_draw_zero:
  "fst (draw zero_gate_state) = 0 \<and> gate_probability (heap zero_gate_state 0) = 0 \<and>
   fst (resolve_old 1 zero_gate_state 0 [2, 2] []) =
     Inr \<lparr>payload = NDArray [2, 2] [1, 1, 1, 1],
          provenance = [[(''sigma'', VFloat 2), (''name'', VStr ''AddOne'')]]\<rparr>"
  by (simp add: zero_gate_state_def AddOne_def Feature_init_def draw_def rand_def
        gate_probability_def input_shape_def resolve_gate_def get_properties_def
        entry_current_value_def sigma_def call_get_def merge_kwargs_def feature_name_def
        append_def add_one_def Image_def zeros_2_2 Let_def)

text \<open>
  C6 (as amended). Whenever the gate's draw exceeds the gating probability, resolve returns
  the input canvas unchanged. The older engine records nothing for the skipped node (and
  caches the input). The newer engine appends a record only when the caller passes a
  \<^verbatim>\<open>property_verbosity\<close> of at least 2, the level of the Probability class, and the record
  is the node's parameter snapshot with its class name: no marker of the bypass exists.
\<close>

theorem skipped_gate_passes_input_through:
  assumes "draw st = (r, st1)" and "gate_probability (heap st a) < r"
      and "nkind (nheap nst b) = Probability"
      and "feature_input nst b global_kwargs = Inr input"
      and "map_of input ''random_number'' = Some (NVal (VFloat x))"
      and "map_of input ''probability'' = Some (NVal (VFloat q)) \<or>
           map_of input ''probability'' = Some (NVal (VInt i)) \<and> q = real_of_int i"
      and "q < x"
  shows "resolve_gate st a sh kwargs img = (Inr img, store_cache a img st1) \<and>
         resolve (Suc depth) nst b nimg global_kwargs =
           (case py_int_le 2 (case map_of global_kwargs ''property_verbosity'' of
                                None \<Rightarrow> NVal (VInt 1) | Some v \<Rightarrow> v) of
              Inl err \<Rightarrow> (Inl err, nst)
            | Inr True \<Rightarrow>
                (Inr (append nimg (AList.update ''name'' (NVal (VStr ''Probability'')) input)),
                 clear_flag b nst)
            | Inr False \<Rightarrow> (Inr nimg, clear_flag b nst))"
proof -
  have g: "gate_opens input = Inr False"
    using assms(5,6,7) by (auto simp: gate_opens_def)
  have "resolve (Suc depth) nst b nimg global_kwargs = record_output nst b input global_kwargs nimg"
    using resolve_Probability_skip[OF assms(3,4) g] .
  then show ?thesis
    using resolve_gate_skip[OF assms(1,2)] assms(3)
    by (simp add: record_output_def property_verbosity_of_def class_name_def
             split: sum.splits bool.splits)
qed

theorem skipped_gate_passes_input_through_witness:
  "draw skip_state = (1 / 2, skip_state\<lparr>random := half\<lparr>draw_pos := 1\<rparr>\<rparr>) \<and>
   gate_probability (heap skip_state 0) < 1 / 2 \<and>
   nkind (nheap gate_state 1) = Probability \<and>
   resolve_gate skip_state 0 [2, 2] [] (Image (zeros [2, 2])) =
     (Inr (Image (zeros [2, 2])),
      store_cache 0 (Image (zeros [2, 2])) (skip_state\<lparr>random := half\<lparr>draw_pos := 1\<rparr>\<rparr>)) \<and>
   resolve 1 gate_state 1 blank [] = (Inr blank, clear_flag 1 gate_state)"
proof -
  have h1: "draw skip_state = (1 / 2, skip_state\<lparr>random := half\<lparr>draw_pos := 1\<rparr>\<rparr>)"
    by (simp add: draw_def rand_def skip_state_def half_def)
  have h2: "gate_probability (heap skip_state 0) < 1 / 2"
    by (simp add: gate_probability_def skip_state_def)
  have h3: "nkind (nheap gate_state 1) = Probability"
    by (simp add: gate_state_def closed_gate_def)
  have h5: "map_of [(''feature'', NFeature 0), (''probability'', NVal (VFloat 0)),
                    (''random_number'', NVal (VFloat (1 / 2)))] ''random_number''
              = Some (NVal (VFloat (1 / 2)))"
    by simp
  have h6: "map_of [(''feature'', NFeature 0), (''probability'', NVal (VFloat 0)),
                    (''random_number'', NVal (VFloat (1 / 2)))] ''probability''
              = Some (NVal (VFloat 0)) \<or>
            map_of [(''feature'', NFeature 0), (''probability'', NVal (VFloat 0)),
                    (''random_number'', NVal (VFloat (1 / 2)))] ''probability''
              = Some (NVal (VInt 0)) \<and> (0::real) = real_of_int 0"
    by simp
  have h7: "(0::real) < 1 / 2" by simp
  show ?thesis
    using skipped_gate_passes_input_through
            [OF h1 h2 h3 gate_state_input h5 h6 h7, of "[2, 2]" "[]" "Image (zeros [2, 2])" 0 blank]
          h1 h2 h3
    by simp
qed

text \<open>
  The leaf gated with probability 0 under a draw of one half, without upstream: the result
  is the zero-filled canvas with an empty provenance list.
\<close>

theorem old_skip_records_nothing:
  "gate_probability (heap skip_state 0) < fst (draw skip_state) \<and>
   fst (resolve_old 1 skip_state 0 [2, 2] []) =
     Inr \<lparr>payload = NDArray [2, 2] [0, 0, 0, 0], provenance = []\<rparr>"
  by (simp add: skip_state_def AddOne_def Feature_init_def draw_def rand_def half_def
        gate_probability_def input_shape_def resolve_gate_def Image_def zeros_2_2 Let_def)

end
